theory Spec2Isabelle
  imports Complex_Main
begin

section \<open>JavaScript numbers\<close>

text \<open>
  The arm model computes with JavaScript numbers. They are modelled as the real numbers
  extended by the three non-finite values of IEEE 754, so that a division by zero, a
  square root of a negative number or an arc cosine outside \<open>[-1, 1]\<close> yields what
  JavaScript yields (\<open>Infinity\<close>, \<open>-Infinity\<close>, \<open>NaN\<close>) instead of the arbitrary finite value of
  the HOL function. Three idealisations remain: finite results are exact (no rounding),
  finite numbers are unbounded (no overflow to \<open>Infinity\<close>), and there is a single zero,
  which divides like \<open>+0\<close>.
\<close>

datatype jsnum = Fin real | PInf | NInf | NaN

instantiation jsnum :: "{plus, minus, uminus, times, inverse, ord}"
begin

fun plus_jsnum :: "jsnum \<Rightarrow> jsnum \<Rightarrow> jsnum" where
  "plus_jsnum (Fin a) (Fin b) = Fin (a + b)"
| "plus_jsnum NaN _ = NaN"
| "plus_jsnum _ NaN = NaN"
| "plus_jsnum PInf NInf = NaN"
| "plus_jsnum NInf PInf = NaN"
| "plus_jsnum PInf _ = PInf"
| "plus_jsnum _ PInf = PInf"
| "plus_jsnum NInf _ = NInf"
| "plus_jsnum _ NInf = NInf"

fun uminus_jsnum :: "jsnum \<Rightarrow> jsnum" where
  "uminus_jsnum (Fin a) = Fin (- a)"
| "uminus_jsnum PInf = NInf"
| "uminus_jsnum NInf = PInf"
| "uminus_jsnum NaN = NaN"

fun minus_jsnum :: "jsnum \<Rightarrow> jsnum \<Rightarrow> jsnum" where
  "minus_jsnum (Fin a) (Fin b) = Fin (a - b)"
| "minus_jsnum NaN _ = NaN"
| "minus_jsnum _ NaN = NaN"
| "minus_jsnum PInf PInf = NaN"
| "minus_jsnum NInf NInf = NaN"
| "minus_jsnum PInf _ = PInf"
| "minus_jsnum _ NInf = PInf"
| "minus_jsnum NInf _ = NInf"
| "minus_jsnum _ PInf = NInf"

fun times_jsnum :: "jsnum \<Rightarrow> jsnum \<Rightarrow> jsnum" where
  "times_jsnum (Fin a) (Fin b) = Fin (a * b)"
| "times_jsnum NaN _ = NaN"
| "times_jsnum _ NaN = NaN"
| "times_jsnum PInf (Fin b) = (if 0 < b then PInf else if b < 0 then NInf else NaN)"
| "times_jsnum NInf (Fin b) = (if 0 < b then NInf else if b < 0 then PInf else NaN)"
| "times_jsnum (Fin a) PInf = (if 0 < a then PInf else if a < 0 then NInf else NaN)"
| "times_jsnum (Fin a) NInf = (if 0 < a then NInf else if a < 0 then PInf else NaN)"
| "times_jsnum PInf PInf = PInf"
| "times_jsnum NInf NInf = PInf"
| "times_jsnum PInf NInf = NInf"
| "times_jsnum NInf PInf = NInf"

text \<open>A finite number divided by zero is \<open>Infinity\<close>, \<open>-Infinity\<close> or, for \<open>0 / 0\<close>, \<open>NaN\<close>.\<close>

fun divide_jsnum :: "jsnum \<Rightarrow> jsnum \<Rightarrow> jsnum" where
  "divide_jsnum (Fin a) (Fin b) =
     (if b \<noteq> 0 then Fin (a / b) else if 0 < a then PInf else if a < 0 then NInf else NaN)"
| "divide_jsnum NaN _ = NaN"
| "divide_jsnum _ NaN = NaN"
| "divide_jsnum (Fin a) PInf = Fin 0"
| "divide_jsnum (Fin a) NInf = Fin 0"
| "divide_jsnum PInf (Fin b) = (if 0 \<le> b then PInf else NInf)"
| "divide_jsnum NInf (Fin b) = (if 0 \<le> b then NInf else PInf)"
| "divide_jsnum PInf PInf = NaN"
| "divide_jsnum PInf NInf = NaN"
| "divide_jsnum NInf PInf = NaN"
| "divide_jsnum NInf NInf = NaN"

definition inverse_jsnum :: "jsnum \<Rightarrow> jsnum" where
  "inverse_jsnum a = divide (Fin 1) a"

text \<open>The comparisons \<open><\<close> and \<open><=\<close> of JavaScript: every comparison with \<open>NaN\<close> is false.
  \<open>a > b\<close> is \<open>b < a\<close> and \<open>a >= b\<close> is \<open>b <= a\<close>.\<close>

fun less_jsnum :: "jsnum \<Rightarrow> jsnum \<Rightarrow> bool" where
  "less_jsnum (Fin a) (Fin b) = (a < b)"
| "less_jsnum NaN _ = False"
| "less_jsnum _ NaN = False"
| "less_jsnum NInf NInf = False"
| "less_jsnum NInf _ = True"
| "less_jsnum PInf _ = False"
| "less_jsnum _ PInf = True"
| "less_jsnum _ NInf = False"

fun less_eq_jsnum :: "jsnum \<Rightarrow> jsnum \<Rightarrow> bool" where
  "less_eq_jsnum (Fin a) (Fin b) = (a \<le> b)"
| "less_eq_jsnum NaN _ = False"
| "less_eq_jsnum _ NaN = False"
| "less_eq_jsnum NInf _ = True"
| "less_eq_jsnum _ PInf = True"
| "less_eq_jsnum PInf _ = False"
| "less_eq_jsnum _ NInf = False"

instance ..

end

text \<open>Strict equality \<open>===\<close> on numbers: \<open>NaN\<close> is not equal to itself.\<close>

fun strict_eq :: "jsnum \<Rightarrow> jsnum \<Rightarrow> bool" where
  "strict_eq (Fin a) (Fin b) = (a = b)"
| "strict_eq PInf PInf = True"
| "strict_eq NInf NInf = True"
| "strict_eq _ _ = False"

text \<open>\<open>null\<close> in arithmetic is converted to the number 0; a field that starts as \<open>null\<close> is an
  option.\<close>

fun ToNumber :: "jsnum option \<Rightarrow> jsnum" where
  "ToNumber None = Fin 0"
| "ToNumber (Some a) = a"

subsection \<open>The functions of \<open>Math\<close>\<close>

fun Math_sqrt :: "jsnum \<Rightarrow> jsnum" where
  "Math_sqrt (Fin a) = (if 0 \<le> a then Fin (sqrt a) else NaN)"
| "Math_sqrt PInf = PInf"
| "Math_sqrt NInf = NaN"
| "Math_sqrt NaN = NaN"

fun Math_sin :: "jsnum \<Rightarrow> jsnum" where
  "Math_sin (Fin a) = Fin (sin a)"
| "Math_sin _ = NaN"

fun Math_cos :: "jsnum \<Rightarrow> jsnum" where
  "Math_cos (Fin a) = Fin (cos a)"
| "Math_cos _ = NaN"

fun Math_acos :: "jsnum \<Rightarrow> jsnum" where
  "Math_acos (Fin a) = (if - 1 \<le> a \<and> a \<le> 1 then Fin (arccos a) else NaN)"
| "Math_acos _ = NaN"

fun Math_asin :: "jsnum \<Rightarrow> jsnum" where
  "Math_asin (Fin a) = (if - 1 \<le> a \<and> a \<le> 1 then Fin (arcsin a) else NaN)"
| "Math_asin _ = NaN"

fun Math_abs :: "jsnum \<Rightarrow> jsnum" where
  "Math_abs (Fin a) = Fin \<bar>a\<bar>"
| "Math_abs PInf = PInf"
| "Math_abs NInf = PInf"
| "Math_abs NaN = NaN"

text \<open>\<open>Math.max\<close> and \<open>Math.min\<close> return \<open>NaN\<close> as soon as one argument is \<open>NaN\<close>.\<close>

definition Math_max :: "jsnum \<Rightarrow> jsnum \<Rightarrow> jsnum" where
  "Math_max a b = (if a = NaN \<or> b = NaN then NaN else if a < b then b else a)"

definition Math_min :: "jsnum \<Rightarrow> jsnum \<Rightarrow> jsnum" where
  "Math_min a b = (if a = NaN \<or> b = NaN then NaN else if b < a then b else a)"

text \<open>\<open>Math.pow\<close> for an exponent that is a natural number.\<close>

fun Math_pow :: "jsnum \<Rightarrow> nat \<Rightarrow> jsnum" where
  "Math_pow (Fin a) n = Fin (a ^ n)"
| "Math_pow PInf n = (if n = 0 then Fin 1 else PInf)"
| "Math_pow NInf n = (if n = 0 then Fin 1 else if even n then PInf else NInf)"
| "Math_pow NaN n = (if n = 0 then Fin 1 else NaN)"

text \<open>The angle of the point \<open>(x, y)\<close>, in \<open>(-\<pi>, \<pi>]\<close>.\<close>

definition atan2 :: "real \<Rightarrow> real \<Rightarrow> real" where
  "atan2 y x =
     (if 0 < x then arctan (y / x)
      else if x < 0 then (if 0 \<le> y then arctan (y / x) + pi else arctan (y / x) - pi)
      else if 0 < y then pi / 2
      else if y < 0 then - (pi / 2)
      else 0)"

fun Math_atan2 :: "jsnum \<Rightarrow> jsnum \<Rightarrow> jsnum" where
  "Math_atan2 (Fin y) (Fin x) = Fin (atan2 y x)"
| "Math_atan2 NaN _ = NaN"
| "Math_atan2 _ NaN = NaN"
| "Math_atan2 (Fin y) PInf = Fin 0"
| "Math_atan2 (Fin y) NInf = (if 0 \<le> y then Fin pi else Fin (- pi))"
| "Math_atan2 PInf (Fin x) = Fin (pi / 2)"
| "Math_atan2 NInf (Fin x) = Fin (- (pi / 2))"
| "Math_atan2 PInf PInf = Fin (pi / 4)"
| "Math_atan2 PInf NInf = Fin (3 * pi / 4)"
| "Math_atan2 NInf PInf = Fin (- (pi / 4))"
| "Math_atan2 NInf NInf = Fin (- (3 * pi / 4))"

definition Math_PI :: jsnum where
  "Math_PI = Fin pi"

definition Number_EPSILON :: jsnum where
  "Number_EPSILON = Fin (1 / 2 ^ 52)"

section \<open>The operations of three.js that the arm model calls\<close>

text \<open>
  three.js is a library the repository imports; these definitions follow the library's
  source in the releases the repository's code is written against (those of 2019, which
  export \<open>Math\<close> and have \<open>Quaternion.inverse\<close>). Every method of \<open>Vector3\<close> and \<open>Quaternion\<close> below
  changes its receiver in place and returns it; the model of a method maps the receiver's
  old value and the arguments to the receiver's new value.
  The fields \<open>x, y, z, w\<close> are named \<open>vx, vy, vz\<close> in a vector and \<open>qx, qy, qz, qw\<close> in a
  quaternion.
\<close>

record vec3 =
  vx :: jsnum
  vy :: jsnum
  vz :: jsnum

record quat =
  qx :: jsnum
  qy :: jsnum
  qz :: jsnum
  qw :: jsnum

text \<open>An Euler triple; its order is \<open>'YXZ'\<close> wherever the arm model builds one.\<close>

record euler =
  ex :: jsnum
  ey :: jsnum
  ez :: jsnum

text \<open>The upper left 3 by 3 block of a \<open>Matrix4\<close>: \<open>mij\<close> is row \<open>i\<close>, column \<open>j\<close>.\<close>

record rotmat =
  m11 :: jsnum
  m12 :: jsnum
  m13 :: jsnum
  m21 :: jsnum
  m22 :: jsnum
  m23 :: jsnum
  m31 :: jsnum
  m32 :: jsnum
  m33 :: jsnum

text \<open>\<open>new Vector3(x, y, z)\<close> and \<open>new Quaternion(x, y, z, w)\<close> on number literals;
  \<open>new Vector3()\<close> is the zero vector and \<open>new Quaternion()\<close> the identity rotation.\<close>

definition Vector3 :: "real \<Rightarrow> real \<Rightarrow> real \<Rightarrow> vec3" where
  "Vector3 a b c = \<lparr>vx = Fin a, vy = Fin b, vz = Fin c\<rparr>"

definition Quaternion :: "real \<Rightarrow> real \<Rightarrow> real \<Rightarrow> real \<Rightarrow> quat" where
  "Quaternion a b c d = \<lparr>qx = Fin a, qy = Fin b, qz = Fin c, qw = Fin d\<rparr>"

definition Vector3_new :: vec3 where
  "Vector3_new = Vector3 0 0 0"

definition Quaternion_new :: quat where
  "Quaternion_new = Quaternion 0 0 0 1"

subsection \<open>\<open>Math\<close> of three.js (imported as \<open>Math2\<close>)\<close>

text \<open>\<^verbatim>\<open>clamp: function (value, min, max) { return Math.max(min, Math.min(max, value)); }\<close>\<close>

definition Math2_clamp :: "jsnum \<Rightarrow> jsnum \<Rightarrow> jsnum \<Rightarrow> jsnum" where
  "Math2_clamp v lo hi = Math_max lo (Math_min hi v)"

text \<open>\<^verbatim>\<open>RAD2DEG: 180 / Math.PI,  radToDeg: function (radians) { return radians * RAD2DEG; }\<close>\<close>

definition RAD2DEG :: jsnum where
  "RAD2DEG = Fin 180 / Math_PI"

definition radToDeg :: "jsnum \<Rightarrow> jsnum" where
  "radToDeg radians = radians * RAD2DEG"

subsection \<open>\<open>Vector3\<close>\<close>

definition add :: "vec3 \<Rightarrow> vec3 \<Rightarrow> vec3" where
  "add this v = \<lparr>vx = vx this + vx v, vy = vy this + vy v, vz = vz this + vz v\<rparr>"

definition multiplyScalar :: "vec3 \<Rightarrow> jsnum \<Rightarrow> vec3" where
  "multiplyScalar this scalar =
     \<lparr>vx = vx this * scalar, vy = vy this * scalar, vz = vz this * scalar\<rparr>"

definition dot :: "vec3 \<Rightarrow> vec3 \<Rightarrow> jsnum" where
  "dot this v = vx this * vx v + vy this * vy v + vz this * vz v"

definition lengthSq :: "vec3 \<Rightarrow> jsnum" where
  "lengthSq this = vx this * vx this + vy this * vy this + vz this * vz this"

text \<open>
  \<^verbatim>\<open>
  applyQuaternion: function (q) {
    var x = this.x, y = this.y, z = this.z;
    var qx = q.x, qy = q.y, qz = q.z, qw = q.w;
    var ix = qw * x + qy * z - qz * y;
    var iy = qw * y + qz * x - qx * z;
    var iz = qw * z + qx * y - qy * x;
    var iw = - qx * x - qy * y - qz * z;
    this.x = ix * qw + iw * - qx + iy * - qz - iz * - qy;
    this.y = iy * qw + iw * - qy + iz * - qx - ix * - qz;
    this.z = iz * qw + iw * - qz + ix * - qy - iy * - qx;
    return this; }
  \<close>
\<close>

definition applyQuaternion :: "vec3 \<Rightarrow> quat \<Rightarrow> vec3" where
  "applyQuaternion this q =
     (let x = vx this; y = vy this; z = vz this;
          ix = qw q * x + qy q * z - qz q * y;
          iy = qw q * y + qz q * x - qx q * z;
          iz = qw q * z + qx q * y - qy q * x;
          iw = - qx q * x - qy q * y - qz q * z
      in \<lparr>vx = ix * qw q + iw * - qx q + iy * - qz q - iz * - qy q,
          vy = iy * qw q + iw * - qy q + iz * - qx q - ix * - qz q,
          vz = iz * qw q + iw * - qz q + ix * - qy q - iy * - qx q\<rparr>)"

text \<open>
  \<^verbatim>\<open>
  angleTo: function (v) {
    var theta = this.dot(v) / (Math.sqrt(this.lengthSq() * v.lengthSq()));
    // clamp, to handle numerical problems
    return Math.acos(_Math.clamp(theta, - 1, 1)); }
  \<close>
\<close>

definition angleTo :: "vec3 \<Rightarrow> vec3 \<Rightarrow> jsnum" where
  "angleTo this v =
     (let theta = dot this v / Math_sqrt (lengthSq this * lengthSq v)
      in Math_acos (Math2_clamp theta (Fin (- 1)) (Fin 1)))"

subsection \<open>\<open>Quaternion\<close>\<close>

text \<open>\<^verbatim>\<open>inverse: function () { return this.conjugate(); }\<close>: the receiver itself is conjugated,
  and it is the receiver that is returned, not a copy.\<close>

definition conjugate :: "quat \<Rightarrow> quat" where
  "conjugate this =
     \<lparr>qx = qx this * Fin (- 1), qy = qy this * Fin (- 1), qz = qz this * Fin (- 1), qw = qw this\<rparr>"

definition inverse_quat :: "quat \<Rightarrow> quat" where
  "inverse_quat this = conjugate this"

text \<open>\<open>a.multiply(b)\<close> is \<open>multiplyQuaternions(a, b)\<close>, the Hamilton product.\<close>

definition multiply :: "quat \<Rightarrow> quat \<Rightarrow> quat" where
  "multiply a b =
     \<lparr>qx = qx a * qw b + qw a * qx b + qy a * qz b - qz a * qy b,
      qy = qy a * qw b + qw a * qy b + qz a * qx b - qx a * qz b,
      qz = qz a * qw b + qw a * qz b + qx a * qy b - qy a * qx b,
      qw = qw a * qw b - qx a * qx b - qy a * qy b - qz a * qz b\<rparr>"

definition quat_lengthSq :: "quat \<Rightarrow> jsnum" where
  "quat_lengthSq this =
     qx this * qx this + qy this * qy this + qz this * qz this + qw this * qw this"

definition quat_length :: "quat \<Rightarrow> jsnum" where
  "quat_length this = Math_sqrt (quat_lengthSq this)"

text \<open>
  \<^verbatim>\<open>
  normalize: function () {
    var l = this.length();
    if (l === 0) { this._x = 0; this._y = 0; this._z = 0; this._w = 1; }
    else { l = 1 / l;
           this._x = this._x * l; this._y = this._y * l;
           this._z = this._z * l; this._w = this._w * l; }
    return this; }
  \<close>
\<close>

definition normalize :: "quat \<Rightarrow> quat" where
  "normalize this =
     (let l = quat_length this
      in if strict_eq l (Fin 0) then Quaternion 0 0 0 1
         else (let l' = Fin 1 / l
               in \<lparr>qx = qx this * l', qy = qy this * l', qz = qz this * l', qw = qw this * l'\<rparr>))"

text \<open>
  \<^verbatim>\<open>
  slerp: function (qb, t) {
    if (t === 0) return this;
    if (t === 1) return this.copy(qb);
    var x = this._x, y = this._y, z = this._z, w = this._w;
    var cosHalfTheta = w * qb._w + x * qb._x + y * qb._y + z * qb._z;
    if (cosHalfTheta < 0) {
      this._w = - qb._w; this._x = - qb._x; this._y = - qb._y; this._z = - qb._z;
      cosHalfTheta = - cosHalfTheta;
    } else { this.copy(qb); }
    if (cosHalfTheta >= 1.0) {
      this._w = w; this._x = x; this._y = y; this._z = z;
      return this; }
    var sqrSinHalfTheta = 1.0 - cosHalfTheta * cosHalfTheta;
    if (sqrSinHalfTheta <= Number.EPSILON) {
      var s = 1 - t;
      this._w = s * w + t * this._w; this._x = s * x + t * this._x;
      this._y = s * y + t * this._y; this._z = s * z + t * this._z;
      return this.normalize(); }
    var sinHalfTheta = Math.sqrt(sqrSinHalfTheta);
    var halfTheta = Math.atan2(sinHalfTheta, cosHalfTheta);
    var ratioA = Math.sin((1 - t) * halfTheta) / sinHalfTheta,
        ratioB = Math.sin(t * halfTheta) / sinHalfTheta;
    this._w = (w * ratioA + this._w * ratioB); this._x = (x * ratioA + this._x * ratioB);
    this._y = (y * ratioA + this._y * ratioB); this._z = (z * ratioA + this._z * ratioB);
    return this; }
  \<close>
  In the model \<open>qb'\<close> is the receiver after the first \<open>if\<close> (\<open>qb\<close> or its negation) and
  \<open>c\<close> the value of \<open>cosHalfTheta\<close> after it.
\<close>

definition slerp :: "quat \<Rightarrow> quat \<Rightarrow> jsnum \<Rightarrow> quat" where
  "slerp this qb t =
     (if strict_eq t (Fin 0) then this
      else if strict_eq t (Fin 1) then qb
      else
        (let x = qx this; y = qy this; z = qz this; w = qw this;
             cosHalfTheta = w * qw qb + x * qx qb + y * qy qb + z * qz qb;
             qb' = (if cosHalfTheta < Fin 0
                    then \<lparr>qx = - qx qb, qy = - qy qb, qz = - qz qb, qw = - qw qb\<rparr>
                    else qb);
             c = (if cosHalfTheta < Fin 0 then - cosHalfTheta else cosHalfTheta)
         in if Fin 1 \<le> c then this
            else
              (let sqrSinHalfTheta = Fin 1 - c * c
               in if sqrSinHalfTheta \<le> Number_EPSILON
                  then
                    (let s = Fin 1 - t
                     in normalize
                          \<lparr>qx = s * x + t * qx qb', qy = s * y + t * qy qb',
                           qz = s * z + t * qz qb', qw = s * w + t * qw qb'\<rparr>)
                  else
                    (let sinHalfTheta = Math_sqrt sqrSinHalfTheta;
                         halfTheta = Math_atan2 sinHalfTheta c;
                         ratioA = Math_sin ((Fin 1 - t) * halfTheta) / sinHalfTheta;
                         ratioB = Math_sin (t * halfTheta) / sinHalfTheta
                     in \<lparr>qx = x * ratioA + qx qb' * ratioB, qy = y * ratioA + qy qb' * ratioB,
                         qz = z * ratioA + qz qb' * ratioB, qw = w * ratioA + qw qb' * ratioB\<rparr>))))"

text \<open>
  \<open>setFromEuler\<close> for an Euler triple of order \<open>'YXZ'\<close>:
  \<^verbatim>\<open>
  var c1 = cos(x / 2), c2 = cos(y / 2), c3 = cos(z / 2);
  var s1 = sin(x / 2), s2 = sin(y / 2), s3 = sin(z / 2);
  this._x = s1 * c2 * c3 + c1 * s2 * s3;
  this._y = c1 * s2 * c3 - s1 * c2 * s3;
  this._z = c1 * c2 * s3 - s1 * s2 * c3;
  this._w = c1 * c2 * c3 + s1 * s2 * s3;
  \<close>
\<close>

definition setFromEuler :: "euler \<Rightarrow> quat" where
  "setFromEuler e =
     (let c1 = Math_cos (ex e / Fin 2); c2 = Math_cos (ey e / Fin 2); c3 = Math_cos (ez e / Fin 2);
          s1 = Math_sin (ex e / Fin 2); s2 = Math_sin (ey e / Fin 2); s3 = Math_sin (ez e / Fin 2)
      in \<lparr>qx = s1 * c2 * c3 + c1 * s2 * s3,
          qy = c1 * s2 * c3 - s1 * c2 * s3,
          qz = c1 * c2 * s3 - s1 * s2 * c3,
          qw = c1 * c2 * c3 + s1 * s2 * s3\<rparr>)"

subsection \<open>\<open>Euler.setFromQuaternion(q, 'YXZ')\<close>\<close>

text \<open>
  The quaternion is first turned into a rotation matrix (\<open>Matrix4.makeRotationFromQuaternion\<close>,
  with the unit scale factors left out):
  \<^verbatim>\<open>
  var x2 = x + x, y2 = y + y, z2 = z + z;
  var xx = x * x2, xy = x * y2, xz = x * z2;
  var yy = y * y2, yz = y * z2, zz = z * z2;
  var wx = w * x2, wy = w * y2, wz = w * z2;
  te[0] = 1 - (yy + zz);  te[4] = xy - wz;        te[8]  = xz + wy;
  te[1] = xy + wz;        te[5] = 1 - (xx + zz);  te[9]  = yz - wx;
  te[2] = xz - wy;        te[6] = yz + wx;        te[10] = 1 - (xx + yy);
  \<close>
\<close>

definition makeRotationFromQuaternion :: "quat \<Rightarrow> rotmat" where
  "makeRotationFromQuaternion q =
     (let x = qx q; y = qy q; z = qz q; w = qw q;
          x2 = x + x; y2 = y + y; z2 = z + z;
          xx = x * x2; xy = x * y2; xz = x * z2;
          yy = y * y2; yz = y * z2; zz = z * z2;
          wx = w * x2; wy = w * y2; wz = w * z2
      in \<lparr>m11 = Fin 1 - (yy + zz), m12 = xy - wz, m13 = xz + wy,
          m21 = xy + wz, m22 = Fin 1 - (xx + zz), m23 = yz - wx,
          m31 = xz - wy, m32 = yz + wx, m33 = Fin 1 - (xx + yy)\<rparr>)"

text \<open>
  \<open>Euler.setFromRotationMatrix\<close>, the branch of order \<open>'YXZ'\<close> (some releases compare
  with 0.9999999 instead of 0.99999; no statement below depends on the constant):
  \<^verbatim>\<open>
  this._x = Math.asin(- clamp(m23, - 1, 1));
  if (Math.abs(m23) < 0.99999) {
    this._y = Math.atan2(m13, m33);
    this._z = Math.atan2(m21, m22);
  } else {
    this._y = Math.atan2(- m31, m11);
    this._z = 0; }
  \<close>
\<close>

definition setFromRotationMatrix :: "rotmat \<Rightarrow> euler" where
  "setFromRotationMatrix m =
     (if Math_abs (m23 m) < Fin 0.99999
      then \<lparr>ex = Math_asin (- Math2_clamp (m23 m) (Fin (- 1)) (Fin 1)),
            ey = Math_atan2 (m13 m) (m33 m),
            ez = Math_atan2 (m21 m) (m22 m)\<rparr>
      else \<lparr>ex = Math_asin (- Math2_clamp (m23 m) (Fin (- 1)) (Fin 1)),
            ey = Math_atan2 (- m31 m) (m11 m),
            ez = Fin 0\<rparr>)"

definition setFromQuaternion :: "quat \<Rightarrow> euler" where
  "setFromQuaternion q = setFromRotationMatrix (makeRotationFromQuaternion q)"

section \<open>The orientation arm model\<close>

definition HEAD_ELBOW_OFFSET :: vec3 where
  "HEAD_ELBOW_OFFSET = Vector3 0.155 (- 0.465) (- 0.15)"

definition ELBOW_WRIST_OFFSET :: vec3 where
  "ELBOW_WRIST_OFFSET = Vector3 0 0 (- 0.25)"

definition WRIST_CONTROLLER_OFFSET :: vec3 where
  "WRIST_CONTROLLER_OFFSET = Vector3 0 0 0.05"

definition ARM_EXTENSION_OFFSET :: vec3 where
  "ARM_EXTENSION_OFFSET = Vector3 (- 0.08) 0.14 0.08"

definition ELBOW_BEND_RATIO :: jsnum where
  "ELBOW_BEND_RATIO = Fin 0.4"

definition EXTENSION_RATIO_WEIGHT :: jsnum where
  "EXTENSION_RATIO_WEIGHT = Fin 0.4"

definition MIN_ANGULAR_SPEED :: jsnum where
  "MIN_ANGULAR_SPEED = Fin 0.61"

record pose =
  orientation :: quat
  position :: vec3

text \<open>The fields of \<open>OrientationArmModel\<close>; \<open>time\<close> and \<open>lastTime\<close> start as \<open>null\<close>.\<close>

record arm_model =
  isLeftHanded :: bool
  controllerQ :: quat
  lastControllerQ :: quat
  headQ :: quat
  headPos :: vec3
  elbowPos :: vec3
  wristPos :: vec3
  time :: "jsnum option"
  lastTime :: "jsnum option"
  rootQ :: quat
  pose :: pose

text \<open>The constructor.\<close>

definition OrientationArmModel :: arm_model where
  "OrientationArmModel =
     \<lparr>isLeftHanded = False,
      controllerQ = Quaternion_new,
      lastControllerQ = Quaternion_new,
      headQ = Quaternion_new,
      headPos = Vector3_new,
      elbowPos = Vector3_new,
      wristPos = Vector3_new,
      time = None,
      lastTime = None,
      rootQ = Quaternion_new,
      pose = \<lparr>orientation = Quaternion_new, position = Vector3_new\<rparr>\<rparr>"

text \<open>The setters copy the components of their argument into the model's own objects.\<close>

definition setControllerOrientation :: "quat \<Rightarrow> arm_model \<Rightarrow> arm_model" where
  "setControllerOrientation quaternion s =
     s\<lparr>lastControllerQ := controllerQ s, controllerQ := quaternion\<rparr>"

definition setHeadOrientation :: "quat \<Rightarrow> arm_model \<Rightarrow> arm_model" where
  "setHeadOrientation quaternion s = s\<lparr>headQ := quaternion\<rparr>"

definition setHeadPosition :: "vec3 \<Rightarrow> arm_model \<Rightarrow> arm_model" where
  "setHeadPosition p s = s\<lparr>headPos := p\<rparr>"

definition getPose :: "arm_model \<Rightarrow> pose" where
  "getPose s = pose s"

text \<open>The methods \<open>getHeadYawOrientation_\<close>, \<open>clamp_\<close> and \<open>quatAngle_\<close> are written without their
  trailing underscore.\<close>

text \<open>\<open>getHeadYawOrientation_\<close>: the head's Euler angles with \<open>x\<close> and \<open>z\<close> set to 0, as a
  quaternion.\<close>

definition getHeadYawOrientation :: "arm_model \<Rightarrow> quat" where
  "getHeadYawOrientation s =
     (let headEuler = setFromQuaternion (headQ s)
      in setFromEuler (headEuler\<lparr>ex := Fin 0, ez := Fin 0\<rparr>))"

text \<open>\<^verbatim>\<open>clamp_(value, min, max) { return Math.min(Math.max(value, min), max); }\<close>\<close>

definition clamp :: "jsnum \<Rightarrow> jsnum \<Rightarrow> jsnum \<Rightarrow> jsnum" where
  "clamp v lo hi = Math_min (Math_max v lo) hi"

text \<open>\<open>quatAngle_\<close>: the angle between the images of \<open>(0, 0, -1)\<close> under the two rotations.\<close>

definition quatAngle :: "quat \<Rightarrow> quat \<Rightarrow> jsnum" where
  "quatAngle q1 q2 =
     (let vec1 = applyQuaternion (Vector3 0 0 (- 1)) q1;
          vec2 = applyQuaternion (Vector3 0 0 (- 1)) q2
      in angleTo vec1 vec2)"

subsection \<open>\<open>update()\<close>\<close>

text \<open>
  \<open>update\<close> is given statement by statement: each local variable of the method is a function
  of the clock reading \<open>now\<close> (the value \<open>performance.now()\<close> returns, in milliseconds) and of
  the model's state \<open>s\<close> at the call; \<open>update\<close> itself, at the end, is the state the call leaves.
\<close>

text \<open>\<^verbatim>\<open>let headYawQ = this.getHeadYawOrientation_();\<close>\<close>

definition update_headYawQ :: "arm_model \<Rightarrow> quat" where
  "update_headYawQ s = getHeadYawOrientation s"

text \<open>\<^verbatim>\<open>let timeDelta = (this.time - this.lastTime) / 1000;\<close> with \<open>this.time\<close> just set to \<open>now\<close>.\<close>

definition update_timeDelta :: "jsnum \<Rightarrow> arm_model \<Rightarrow> jsnum" where
  "update_timeDelta now s = (now - ToNumber (lastTime s)) / Fin 1000"

text \<open>\<^verbatim>\<open>let angleDelta = this.quatAngle_(this.lastControllerQ, this.controllerQ);\<close>\<close>

definition update_angleDelta :: "arm_model \<Rightarrow> jsnum" where
  "update_angleDelta s = quatAngle (lastControllerQ s) (controllerQ s)"

text \<open>\<^verbatim>\<open>let controllerAngularSpeed = angleDelta / timeDelta;\<close>\<close>

definition update_controllerAngularSpeed :: "jsnum \<Rightarrow> arm_model \<Rightarrow> jsnum" where
  "update_controllerAngularSpeed now s = update_angleDelta s / update_timeDelta now s"

text \<open>
  \<^verbatim>\<open>
  if (controllerAngularSpeed > MIN_ANGULAR_SPEED) {
    this.rootQ.slerp(headYawQ, angleDelta / 10)
  } else {
    this.rootQ.copy(headYawQ); }
  \<close>
  \<open>this.rootQ\<close> after the statement:
\<close>

definition update_rootQ :: "jsnum \<Rightarrow> arm_model \<Rightarrow> quat" where
  "update_rootQ now s =
     (if MIN_ANGULAR_SPEED < update_controllerAngularSpeed now s
      then slerp (rootQ s) (update_headYawQ s) (update_angleDelta s / Fin 10)
      else update_headYawQ s)"

text \<open>
  \<^verbatim>\<open>
  let controllerEuler = new Euler().setFromQuaternion(this.controllerQ, 'YXZ');
  let controllerXDeg = Math2.radToDeg(controllerEuler.x);
  let extensionRatio = this.clamp_((controllerXDeg - 11) / (50 - 11), 0, 1);
  \<close>
\<close>

definition update_controllerXDeg :: "arm_model \<Rightarrow> jsnum" where
  "update_controllerXDeg s = radToDeg (ex (setFromQuaternion (controllerQ s)))"

definition extensionRatio_of :: "jsnum \<Rightarrow> jsnum" where
  "extensionRatio_of controllerXDeg =
     clamp ((controllerXDeg - Fin 11) / (Fin 50 - Fin 11)) (Fin 0) (Fin 1)"

definition update_extensionRatio :: "arm_model \<Rightarrow> jsnum" where
  "update_extensionRatio s = extensionRatio_of (update_controllerXDeg s)"

text \<open>
  \<^verbatim>\<open>
  let controllerCameraQ = this.rootQ.clone().inverse();
  controllerCameraQ.multiply(this.controllerQ);
  \<close>
\<close>

definition update_controllerCameraQ :: "jsnum \<Rightarrow> arm_model \<Rightarrow> quat" where
  "update_controllerCameraQ now s =
     multiply (inverse_quat (update_rootQ now s)) (controllerQ s)"

text \<open>
  \<^verbatim>\<open>
  let elbowPos = this.elbowPos;
  elbowPos.copy(this.headPos).add(HEAD_ELBOW_OFFSET);
  let elbowOffset = new Vector3().copy(ARM_EXTENSION_OFFSET);
  elbowOffset.multiplyScalar(extensionRatio);
  elbowPos.add(elbowOffset);
  \<close>
  \<open>elbowPos\<close> is the object \<open>this.elbowPos\<close>.
\<close>

definition update_elbowPos :: "arm_model \<Rightarrow> vec3" where
  "update_elbowPos s =
     add (add (headPos s) HEAD_ELBOW_OFFSET)
         (multiplyScalar ARM_EXTENSION_OFFSET (update_extensionRatio s))"

text \<open>
  \<^verbatim>\<open>
  let totalAngle = this.quatAngle_(controllerCameraQ, new Quaternion());
  let totalAngleDeg = Math2.radToDeg(totalAngle);
  let lerpSuppression = 1 - Math.pow(totalAngleDeg / 180, 4);
  \<close>
\<close>

definition update_totalAngle :: "jsnum \<Rightarrow> arm_model \<Rightarrow> jsnum" where
  "update_totalAngle now s = quatAngle (update_controllerCameraQ now s) Quaternion_new"

definition update_totalAngleDeg :: "jsnum \<Rightarrow> arm_model \<Rightarrow> jsnum" where
  "update_totalAngleDeg now s = radToDeg (update_totalAngle now s)"

definition lerpSuppression_of :: "jsnum \<Rightarrow> jsnum" where
  "lerpSuppression_of totalAngleDeg = Fin 1 - Math_pow (totalAngleDeg / Fin 180) 4"

definition update_lerpSuppression :: "jsnum \<Rightarrow> arm_model \<Rightarrow> jsnum" where
  "update_lerpSuppression now s = lerpSuppression_of (update_totalAngleDeg now s)"

text \<open>
  \<^verbatim>\<open>
  let elbowRatio = ELBOW_BEND_RATIO;
  let wristRatio = 1 - ELBOW_BEND_RATIO;
  let lerpValue = lerpSuppression *
      (elbowRatio + wristRatio * extensionRatio * EXTENSION_RATIO_WEIGHT);
  \<close>
\<close>

definition lerpValue_of :: "jsnum \<Rightarrow> jsnum \<Rightarrow> jsnum" where
  "lerpValue_of lerpSuppression extensionRatio =
     (let elbowRatio = ELBOW_BEND_RATIO;
          wristRatio = Fin 1 - ELBOW_BEND_RATIO
      in lerpSuppression * (elbowRatio + wristRatio * extensionRatio * EXTENSION_RATIO_WEIGHT))"

definition update_lerpValue :: "jsnum \<Rightarrow> arm_model \<Rightarrow> jsnum" where
  "update_lerpValue now s =
     lerpValue_of (update_lerpSuppression now s) (update_extensionRatio s)"

text \<open>
  \<^verbatim>\<open>let wristQ = new Quaternion().slerp(controllerCameraQ, lerpValue);\<close>
  The object \<open>wristQ\<close> right after this statement:
\<close>

definition update_wristQ_slerped :: "jsnum \<Rightarrow> arm_model \<Rightarrow> quat" where
  "update_wristQ_slerped now s =
     slerp Quaternion_new (update_controllerCameraQ now s) (update_lerpValue now s)"

text \<open>
  \<^verbatim>\<open>let invWristQ = wristQ.inverse();\<close>
  \<open>inverse\<close> conjugates its receiver in place and returns the receiver: after this statement
  \<open>invWristQ\<close> and \<open>wristQ\<close> are one object, which holds the conjugate of the slerped
  quaternion. (Two lines above, the source clones \<open>this.rootQ\<close> before it inverts it.)
\<close>

definition update_invWristQ :: "jsnum \<Rightarrow> arm_model \<Rightarrow> quat" where
  "update_invWristQ now s = inverse_quat (update_wristQ_slerped now s)"

definition update_wristQ :: "jsnum \<Rightarrow> arm_model \<Rightarrow> quat" where
  "update_wristQ now s = update_invWristQ now s"

text \<open>\<^verbatim>\<open>let elbowQ = controllerCameraQ.clone().multiply(invWristQ);\<close>\<close>

definition update_elbowQ :: "jsnum \<Rightarrow> arm_model \<Rightarrow> quat" where
  "update_elbowQ now s = multiply (update_controllerCameraQ now s) (update_invWristQ now s)"

text \<open>
  \<^verbatim>\<open>
  let wristPos = this.wristPos;
  wristPos.copy(WRIST_CONTROLLER_OFFSET);
  wristPos.applyQuaternion(wristQ);
  wristPos.add(ELBOW_WRIST_OFFSET);
  wristPos.applyQuaternion(elbowQ);
  wristPos.add(this.elbowPos);
  \<close>
\<close>

definition update_wristPos :: "jsnum \<Rightarrow> arm_model \<Rightarrow> vec3" where
  "update_wristPos now s =
     add (applyQuaternion
            (add (applyQuaternion WRIST_CONTROLLER_OFFSET (update_wristQ now s))
                 ELBOW_WRIST_OFFSET)
            (update_elbowQ now s))
         (update_elbowPos s)"

text \<open>
  \<^verbatim>\<open>
  let offset = new Vector3().copy(ARM_EXTENSION_OFFSET);
  offset.multiplyScalar(extensionRatio);
  let position = new Vector3().copy(this.wristPos);
  position.add(offset);
  position.applyQuaternion(this.rootQ);
  \<close>
\<close>

definition update_position :: "jsnum \<Rightarrow> arm_model \<Rightarrow> vec3" where
  "update_position now s =
     applyQuaternion
       (add (update_wristPos now s)
            (multiplyScalar ARM_EXTENSION_OFFSET (update_extensionRatio s)))
       (update_rootQ now s)"

text \<open>
  \<^verbatim>\<open>
  let orientation = new Quaternion().copy(this.controllerQ);
  this.pose.orientation.copy(orientation);
  this.pose.position.copy(position);
  this.lastTime = this.time;
  \<close>
  The state after the call:
\<close>

definition update :: "jsnum \<Rightarrow> arm_model \<Rightarrow> arm_model" where
  "update now s =
     s\<lparr>time := Some now,
       rootQ := update_rootQ now s,
       elbowPos := update_elbowPos s,
       wristPos := update_wristPos now s,
       pose := \<lparr>orientation = controllerQ s, position = update_position now s\<rparr>,
       lastTime := Some now\<rparr>"

text \<open>One frame of the simulator's \<open>render()\<close>: the three setters, then \<open>update()\<close>. The
  orientations, which \<open>render()\<close> builds from the sliders, and the clock reading are
  arguments here.\<close>

definition render :: "quat \<Rightarrow> quat \<Rightarrow> vec3 \<Rightarrow> jsnum \<Rightarrow> arm_model \<Rightarrow> arm_model" where
  "render controllerOrientation headOrientation headPosition now s =
     update now
       (setHeadPosition headPosition
          (setHeadOrientation headOrientation
             (setControllerOrientation controllerOrientation s)))"

section \<open>Predicates of the statements\<close>

text \<open>A number is finite when it is neither \<open>NaN\<close> nor an infinity; a vector, a quaternion
  and a pose are finite when their components are. A unit quaternion is one whose
  \<open>length()\<close> is 1; it is then finite.\<close>

fun is_Fin :: "jsnum \<Rightarrow> bool" where
  "is_Fin (Fin a) = True"
| "is_Fin PInf = False"
| "is_Fin NInf = False"
| "is_Fin NaN = False"

definition finite_vec3 :: "vec3 \<Rightarrow> bool" where
  "finite_vec3 v = (is_Fin (vx v) \<and> is_Fin (vy v) \<and> is_Fin (vz v))"

definition finite_quat :: "quat \<Rightarrow> bool" where
  "finite_quat q = (is_Fin (qx q) \<and> is_Fin (qy q) \<and> is_Fin (qz q) \<and> is_Fin (qw q))"

definition finite_pose :: "pose \<Rightarrow> bool" where
  "finite_pose p = (finite_quat (orientation p) \<and> finite_vec3 (position p))"

definition unit_quat :: "quat \<Rightarrow> bool" where
  "unit_quat q = (quat_length q = Fin 1)"

text \<open>The states the tracking loop produces: the three orientations fed by the setters are
  unit quaternions, the head position is finite, and the root orientation, which only
  \<open>update()\<close> writes, is a unit quaternion.\<close>

definition valid_state :: "arm_model \<Rightarrow> bool" where
  "valid_state s =
     (unit_quat (controllerQ s) \<and> unit_quat (lastControllerQ s) \<and> unit_quat (headQ s)
      \<and> unit_quat (rootQ s) \<and> finite_vec3 (headPos s))"

text \<open>Two states for the scenarios. In the first, one frame has run at clock reading 1000 on
  a fresh model, and then the controller and the head have both been given a quarter turn
  about the vertical axis. In the second, a fresh model has twice been given a controller
  pitched up by a quarter turn.\<close>

definition quarter_turn_scenario :: arm_model where
  "quarter_turn_scenario =
     setHeadOrientation (Quaternion 0 (sqrt 2 / 2) 0 (sqrt 2 / 2))
       (setControllerOrientation (Quaternion 0 (sqrt 2 / 2) 0 (sqrt 2 / 2))
          (update (Fin 1000) OrientationArmModel))"

definition raised_controller_state :: arm_model where
  "raised_controller_state =
     setControllerOrientation (Quaternion (sqrt 2 / 2) 0 0 (sqrt 2 / 2))
       (setControllerOrientation (Quaternion (sqrt 2 / 2) 0 0 (sqrt 2 / 2)) OrientationArmModel)"

section \<open>Numbers that are finite\<close>

lemma Math_max_Fin [simp]: "Math_max (Fin a) (Fin b) = Fin (max a b)"
  by (simp add: Math_max_def max_def)

lemma Math_min_Fin [simp]: "Math_min (Fin a) (Fin b) = Fin (min a b)"
  by (simp add: Math_min_def min_def)

lemma Math2_clamp_Fin: "Math2_clamp (Fin v) (Fin lo) (Fin hi) = Fin (max lo (min hi v))"
  by (simp add: Math2_clamp_def)

lemma RAD2DEG_Fin: "RAD2DEG = Fin (180 / pi)"
  by (simp add: RAD2DEG_def Math_PI_def)

lemma radToDeg_Fin [simp]: "radToDeg (Fin r) = Fin (r * (180 / pi))"
  by (simp add: radToDeg_def RAD2DEG_Fin)

section \<open>What \<open>update()\<close> copies and what it leaves alone\<close>

text \<open>
  C1. After \<open>update()\<close> the orientation of the pose that \<open>getPose()\<close> returns is the
  controller orientation last given to \<open>setControllerOrientation\<close>, component for component:
  the setter stores its argument, neither the other setters nor \<open>update()\<close> change the stored
  value, and \<open>update()\<close> copies it into the pose. So after a frame that passes \<open>q\<close> the pose
  orientation is \<open>q\<close>, and its length is 1 whenever the length of \<open>q\<close> is.
\<close>

theorem pose_orientation_is_controllerQ:
  "controllerQ (setControllerOrientation q s) = q
   \<and> controllerQ (setHeadOrientation h s) = controllerQ s
   \<and> controllerQ (setHeadPosition p s) = controllerQ s
   \<and> controllerQ (update now s) = controllerQ s
   \<and> orientation (getPose (update now s)) = controllerQ s
   \<and> orientation (getPose (render q h p now s)) = q
   \<and> (quat_length q = Fin 1 \<longrightarrow>
        quat_length (orientation (getPose (render q h p now s))) = Fin 1)"
  by (simp add: update_def getPose_def render_def setControllerOrientation_def
        setHeadOrientation_def setHeadPosition_def)

theorem pose_orientation_is_controllerQ_witness:
  "quat_length (Quaternion 0 0 0 1) = Fin 1
   \<and> quat_length
        (orientation
          (getPose
            (render (Quaternion 0 0 0 1) Quaternion_new Vector3_new (Fin 16)
               OrientationArmModel))) = Fin 1"
  using pose_orientation_is_controllerQ
    [of "Quaternion 0 0 0 1" OrientationArmModel Quaternion_new Vector3_new "Fin 16"]
  by (simp add: quat_length_def quat_lengthSq_def Quaternion_def)

text \<open>
  C8. \<open>setControllerOrientation(q)\<close> moves the current \<open>controllerQ\<close> into \<open>lastControllerQ\<close>
  and then stores \<open>q\<close> in \<open>controllerQ\<close>; \<open>update()\<close> writes none of \<open>controllerQ\<close>,
  \<open>lastControllerQ\<close>, \<open>headQ\<close> and \<open>headPos\<close>. The one frame of history is kept by the setter
  alone: after two frames \<open>lastControllerQ\<close> is the orientation of the first one.
\<close>

theorem setter_keeps_history_update_does_not:
  "lastControllerQ (setControllerOrientation q s) = controllerQ s
   \<and> controllerQ (setControllerOrientation q s) = q
   \<and> controllerQ (update now s) = controllerQ s
   \<and> lastControllerQ (update now s) = lastControllerQ s
   \<and> headQ (update now s) = headQ s
   \<and> headPos (update now s) = headPos s
   \<and> lastControllerQ (render q2 h2 p2 now2 (render q1 h1 p1 now1 s)) = q1
   \<and> controllerQ (render q2 h2 p2 now2 (render q1 h1 p1 now1 s)) = q2"
  by (simp add: update_def render_def setControllerOrientation_def
        setHeadOrientation_def setHeadPosition_def)

section \<open>The extension ratio\<close>

lemma extensionRatio_of_Fin:
  "extensionRatio_of (Fin p) = Fin (min (max ((p - 11) / 39) 0) 1)"
  by (simp add: extensionRatio_of_def clamp_def)

lemma makeRotationFromQuaternion_m23:
  "m23 (makeRotationFromQuaternion (Quaternion a b c d)) = Fin (b * (c + c) - d * (a + a))"
  by (simp add: makeRotationFromQuaternion_def Quaternion_def Let_def)

lemma ex_setFromRotationMatrix:
  "ex (setFromRotationMatrix m) = Math_asin (- Math2_clamp (m23 m) (Fin (- 1)) (Fin 1))"
  by (simp add: setFromRotationMatrix_def)

lemma controllerXDeg_finite:
  assumes "controllerQ s = Quaternion a b c d"
  shows "\<exists>p. update_controllerXDeg s = Fin p \<and> - 90 \<le> p \<and> p \<le> 90"
proof -
  define v where "v = max (- 1) (min 1 (b * (c + c) - d * (a + a)))"
  have v: "- 1 \<le> - v" "- v \<le> 1" by (simp_all add: v_def)
  have "update_controllerXDeg s = Fin (arcsin (- v) * (180 / pi))"
    using v unfolding update_controllerXDeg_def setFromQuaternion_def ex_setFromRotationMatrix
      assms makeRotationFromQuaternion_m23 Math2_clamp_Fin v_def [symmetric]
    by simp
  moreover have "- (pi / 2) \<le> arcsin (- v)" "arcsin (- v) \<le> pi / 2"
    using arcsin_bounded [of "- v"] v by simp_all
  then have "- 90 \<le> arcsin (- v) * (180 / pi)" "arcsin (- v) * (180 / pi) \<le> 90"
    using pi_gt_zero by (simp_all add: field_simps)
  ultimately show ?thesis by blast
qed

text \<open>
  C4. The extension ratio of \<open>update()\<close> is \<open>clamp((controllerXDeg - 11) / (50 - 11), 0, 1)\<close>
  with \<open>controllerXDeg\<close> the \<open>x\<close> angle, in degrees, of the \<open>'YXZ'\<close> Euler angles of
  \<open>controllerQ\<close>, a finite number between -90 and 90 when the quaternion is finite. For every
  finite pitch \<open>p\<close> the ratio is a number in \<open>[0, 1]\<close>: 0 for \<open>p \<le> 11\<close>, 1 for \<open>p \<ge> 50\<close> and
  \<open>(p - 11) / 39\<close> in between.
\<close>

theorem extensionRatio_ramp:
  "update_extensionRatio s =
     extensionRatio_of (radToDeg (ex (setFromQuaternion (controllerQ s))))
   \<and> (controllerQ s = Quaternion a b c d \<longrightarrow>
        (\<exists>p. radToDeg (ex (setFromQuaternion (controllerQ s))) = Fin p \<and> - 90 \<le> p \<and> p \<le> 90))
   \<and> (\<exists>r. extensionRatio_of (Fin p) = Fin r \<and> 0 \<le> r \<and> r \<le> 1)
   \<and> (p \<le> 11 \<longrightarrow> extensionRatio_of (Fin p) = Fin 0)
   \<and> (50 \<le> p \<longrightarrow> extensionRatio_of (Fin p) = Fin 1)
   \<and> (11 \<le> p \<and> p \<le> 50 \<longrightarrow> extensionRatio_of (Fin p) = Fin ((p - 11) / 39))"
proof -
  have "controllerQ s = Quaternion a b c d \<Longrightarrow>
        (\<exists>p. radToDeg (ex (setFromQuaternion (controllerQ s))) = Fin p \<and> - 90 \<le> p \<and> p \<le> 90)"
    using controllerXDeg_finite [of s a b c d] by (simp add: update_controllerXDeg_def)
  then show ?thesis
    by (auto simp add: update_extensionRatio_def update_controllerXDeg_def extensionRatio_of_Fin
        min_def max_def)
qed

theorem extensionRatio_ramp_witness:
  "controllerQ OrientationArmModel = Quaternion 0 0 0 1
   \<and> (\<exists>p. radToDeg (ex (setFromQuaternion (controllerQ OrientationArmModel))) = Fin p
          \<and> - 90 \<le> p \<and> p \<le> 90)
   \<and> (5 :: real) \<le> 11 \<and> extensionRatio_of (Fin 5) = Fin 0
   \<and> (50 :: real) \<le> 60 \<and> extensionRatio_of (Fin 60) = Fin 1
   \<and> (11 :: real) \<le> 30 \<and> (30 :: real) \<le> 50 \<and> extensionRatio_of (Fin 30) = Fin ((30 - 11) / 39)"
  using extensionRatio_ramp [of OrientationArmModel 0 0 0 1 5]
    extensionRatio_ramp [of OrientationArmModel 0 0 0 1 60]
    extensionRatio_ramp [of OrientationArmModel 0 0 0 1 30]
  by (simp add: OrientationArmModel_def Quaternion_new_def)

section \<open>Vectors and quaternions with finite components\<close>

lemma applyQuaternion_Fin:
  "applyQuaternion (Vector3 x y z) (Quaternion a b c d) =
     Vector3 ((d * x + b * z - c * y) * d + (- a * x - b * y - c * z) * - a
                + (d * y + c * x - a * z) * - c - (d * z + a * y - b * x) * - b)
             ((d * y + c * x - a * z) * d + (- a * x - b * y - c * z) * - b
                + (d * z + a * y - b * x) * - a - (d * x + b * z - c * y) * - c)
             ((d * z + a * y - b * x) * d + (- a * x - b * y - c * z) * - c
                + (d * x + b * z - c * y) * - b - (d * y + c * x - a * z) * - a)"
  by (simp add: applyQuaternion_def Vector3_def Quaternion_def Let_def)

lemma forward_Fin:
  "applyQuaternion (Vector3 0 0 (- 1)) (Quaternion a b c d) =
     Vector3 (- (2 * (a * c + b * d))) (- (2 * (b * c - a * d))) (- (d * d + c * c - a * a - b * b))"
  by (simp add: applyQuaternion_Fin) (simp add: Vector3_def algebra_simps)

lemma forward_lengthSq:
  "lengthSq (Vector3 (- (2 * (a * c + b * d))) (- (2 * (b * c - a * d))) (- (d * d + c * c - a * a - b * b)))
   = Fin ((a * a + b * b + c * c + d * d) ^ 2)"
  by (simp add: lengthSq_def Vector3_def power2_eq_square algebra_simps)

lemma angleTo_Fin:
  assumes "x1 * x1 + y1 * y1 + z1 * z1 \<noteq> 0" "x2 * x2 + y2 * y2 + z2 * z2 \<noteq> 0"
  shows "angleTo (Vector3 x1 y1 z1) (Vector3 x2 y2 z2) =
     Fin (arccos (max (- 1) (min 1 ((x1 * x2 + y1 * y2 + z1 * z2) /
           sqrt ((x1 * x1 + y1 * y1 + z1 * z1) * (x2 * x2 + y2 * y2 + z2 * z2))))))"
proof -
  have "0 \<le> (x1 * x1 + y1 * y1 + z1 * z1) * (x2 * x2 + y2 * y2 + z2 * z2)"
    by (intro mult_nonneg_nonneg) (simp_all add: add_nonneg_nonneg)
  moreover have "(x1 * x1 + y1 * y1 + z1 * z1) * (x2 * x2 + y2 * y2 + z2 * z2) \<noteq> 0"
    using assms by simp
  ultimately show ?thesis
    by (simp add: angleTo_def dot_def lengthSq_def Vector3_def Let_def Math2_clamp_Fin)
qed

lemma angleTo_zero:
  assumes "x1 * x1 + y1 * y1 + z1 * z1 = 0 \<or> x2 * x2 + y2 * y2 + z2 * z2 = 0"
  shows "angleTo (Vector3 x1 y1 z1) (Vector3 x2 y2 z2) = NaN"
proof -
  have "x1 * x2 + y1 * y2 + z1 * z2 = 0"
    using assms by (auto simp add: add_nonneg_eq_0_iff)
  then show ?thesis
    using assms by (auto simp add: angleTo_def dot_def lengthSq_def Vector3_def Let_def Math2_clamp_def Math_min_def Math_max_def)
qed


lemma arccos_clamp_range:
  "0 \<le> arccos (max (- 1) (min 1 x))" "arccos (max (- 1) (min 1 x)) \<le> pi"
  by (simp_all add: arccos_lbound arccos_ubound)

lemma quatAngle_range:
  assumes "a * a + b * b + c * c + d * d \<noteq> 0" "e * e + f * f + g * g + h * h \<noteq> 0"
  shows "\<exists>\<theta>. quatAngle (Quaternion a b c d) (Quaternion e f g h) = Fin \<theta> \<and> 0 \<le> \<theta> \<and> \<theta> \<le> pi"
proof -
  have 1: "lengthSq (applyQuaternion (Vector3 0 0 (- 1)) (Quaternion a b c d)) \<noteq> Fin 0"
    using assms(1) unfolding forward_Fin forward_lengthSq by simp
  have 2: "lengthSq (applyQuaternion (Vector3 0 0 (- 1)) (Quaternion e f g h)) \<noteq> Fin 0"
    using assms(2) unfolding forward_Fin forward_lengthSq by simp
  obtain x1 y1 z1 where v1: "applyQuaternion (Vector3 0 0 (- 1)) (Quaternion a b c d) = Vector3 x1 y1 z1"
    using forward_Fin by blast
  obtain x2 y2 z2 where v2: "applyQuaternion (Vector3 0 0 (- 1)) (Quaternion e f g h) = Vector3 x2 y2 z2"
    using forward_Fin by blast
  have n1: "x1 * x1 + y1 * y1 + z1 * z1 \<noteq> 0"
    using 1 unfolding v1 by (simp add: lengthSq_def Vector3_def)
  have n2: "x2 * x2 + y2 * y2 + z2 * z2 \<noteq> 0"
    using 2 unfolding v2 by (simp add: lengthSq_def Vector3_def)
  show ?thesis
    unfolding quatAngle_def Let_def v1 v2 angleTo_Fin [OF n1 n2]
    using arccos_clamp_range by blast
qed

lemma quatAngle_same:
  assumes "a * a + b * b + c * c + d * d \<noteq> 0"
  shows "quatAngle (Quaternion a b c d) (Quaternion a b c d) = Fin 0"
proof -
  have 1: "lengthSq (applyQuaternion (Vector3 0 0 (- 1)) (Quaternion a b c d)) \<noteq> Fin 0"
    using assms(1) unfolding forward_Fin forward_lengthSq by simp
  obtain x1 y1 z1 where v1: "applyQuaternion (Vector3 0 0 (- 1)) (Quaternion a b c d) = Vector3 x1 y1 z1"
    using forward_Fin by blast
  have n1: "x1 * x1 + y1 * y1 + z1 * z1 \<noteq> 0"
    using 1 unfolding v1 by (simp add: lengthSq_def Vector3_def)
  have "0 \<le> x1 * x1 + y1 * y1 + z1 * z1" by (simp add: add_nonneg_nonneg)
  then have "(x1 * x1 + y1 * y1 + z1 * z1) / sqrt ((x1 * x1 + y1 * y1 + z1 * z1) * (x1 * x1 + y1 * y1 + z1 * z1)) = 1"
    using n1 by simp
  then show ?thesis
    unfolding quatAngle_def Let_def v1 angleTo_Fin [OF n1 n1] by simp
qed

lemma quatAngle_zero_left:
  "quatAngle (Quaternion 0 0 0 0) (Quaternion e f g h) = NaN"
  unfolding quatAngle_def Let_def forward_Fin by (simp add: angleTo_zero)

lemma atan2_cos_sin:
  assumes "s * s + c * c = 1" "0 \<le> c" "0 \<le> s"
  shows "cos (atan2 s c) = c" "sin (atan2 s c) = s"
proof -
  show "cos (atan2 s c) = c"
  proof (cases "0 < c")
    case True
    have "1 + (s / c)\<^sup>2 = 1 / c\<^sup>2"
      using True assms(1) by (simp add: field_simps power2_eq_square)
    then have "sqrt (1 + (s / c)\<^sup>2) = 1 / c"
      using True by (simp add: real_sqrt_divide)
    then show ?thesis using True by (simp add: atan2_def cos_arctan)
  next
    case False
    then have c: "c = 0" using assms(2) by simp
    then have "s * s = 1" using assms(1) by simp
    then have "s = 1" using assms(3)
      by (metis abs_of_nonneg real_sqrt_abs2 real_sqrt_one)
    then show ?thesis using c by (simp add: atan2_def)
  qed
  show "sin (atan2 s c) = s"
  proof (cases "0 < c")
    case True
    have "1 + (s / c)\<^sup>2 = 1 / c\<^sup>2"
      using True assms(1) by (simp add: field_simps power2_eq_square)
    then have "sqrt (1 + (s / c)\<^sup>2) = 1 / c"
      using True by (simp add: real_sqrt_divide)
    then show ?thesis using True by (simp add: atan2_def sin_arctan)
  next
    case False
    then have c: "c = 0" using assms(2) by simp
    then have "s * s = 1" using assms(1) by simp
    then have "s = 1" using assms(3)
      by (metis abs_of_nonneg real_sqrt_abs2 real_sqrt_one)
    then show ?thesis using c by (simp add: atan2_def)
  qed
qed

lemma slerp_trig:
  fixes A B :: real
  shows "(sin A)\<^sup>2 + (sin B)\<^sup>2 + 2 * sin A * sin B * cos (A + B) = (sin (A + B))\<^sup>2"
proof -
  have cA: "(cos A)\<^sup>2 = 1 - (sin A)\<^sup>2" and cB: "(cos B)\<^sup>2 = 1 - (sin B)\<^sup>2"
    by (simp_all add: cos_squared_eq)
  have "(sin (A + B))\<^sup>2 = (sin A)\<^sup>2 * (cos B)\<^sup>2 + (cos A)\<^sup>2 * (sin B)\<^sup>2
          + 2 * sin A * cos A * sin B * cos B"
    by (simp add: sin_add power2_eq_square algebra_simps)
  also have "\<dots> = (sin A)\<^sup>2 + (sin B)\<^sup>2 + 2 * sin A * sin B * (cos A * cos B - sin A * sin B)"
    unfolding cA cB by (simp add: power2_eq_square algebra_simps)
  finally show ?thesis by (simp add: cos_add)
qed

section \<open>\<open>slerp\<close> on unit quaternions\<close>

lemma normalize_Fin:
  "normalize (Quaternion p q r s) =
     (if p * p + q * q + r * r + s * s = 0 then Quaternion 0 0 0 1
      else Quaternion (p * (1 / sqrt (p * p + q * q + r * r + s * s)))
                      (q * (1 / sqrt (p * p + q * q + r * r + s * s)))
                      (r * (1 / sqrt (p * p + q * q + r * r + s * s)))
                      (s * (1 / sqrt (p * p + q * q + r * r + s * s))))"
proof -
  have "0 \<le> p * p + q * q + r * r + s * s" by (simp add: add_nonneg_nonneg)
  then show ?thesis
    by (simp add: normalize_def quat_length_def quat_lengthSq_def Quaternion_def Let_def)
qed

lemma normalize_unit:
  "\<exists>p' q' r' s'. normalize (Quaternion p q r s) = Quaternion p' q' r' s'
      \<and> p' * p' + q' * q' + r' * r' + s' * s' = 1"
proof (cases "p * p + q * q + r * r + s * s = 0")
  case True
  then show ?thesis unfolding normalize_Fin by (intro exI [of _ 0] exI [of _ 1]) simp
next
  case False
  define n where "n = p * p + q * q + r * r + s * s"
  define l where "l = 1 / sqrt n"
  have n: "0 < n" using False unfolding n_def
    by (metis add_nonneg_nonneg less_eq_real_def zero_le_square)
  have ll: "l * l = 1 / n" using n by (simp add: l_def)
  have "(p * l) * (p * l) + (q * l) * (q * l) + (r * l) * (r * l) + (s * l) * (s * l)
      = n * (l * l)"
    unfolding n_def by (simp add: algebra_simps)
  also have "\<dots> = 1" using n by (simp add: ll)
  finally have "(p * l) * (p * l) + (q * l) * (q * l) + (r * l) * (r * l) + (s * l) * (s * l) = 1" .
  moreover have "normalize (Quaternion p q r s) = Quaternion (p * l) (q * l) (r * l) (s * l)"
    using False unfolding normalize_Fin l_def n_def by simp
  ultimately show ?thesis by blast
qed

lemma slerp_t0: "slerp this qb (Fin 0) = this"
  by (simp add: slerp_def)

lemma slerp_t1: "slerp this qb (Fin 1) = qb"
  by (simp add: slerp_def)

lemma slerp_cos_ge1:
  assumes "1 \<le> \<bar>d * h + a * e + b * f + c * g\<bar>"
  shows "slerp (Quaternion a b c d) (Quaternion e f g h) (Fin t) =
           (if t = 1 then Quaternion e f g h else Quaternion a b c d)"
proof (cases "d * h + a * e + b * f + c * g < 0")
  case True
  then have "1 \<le> - (d * h + a * e + b * f + c * g)" using assms by simp
  then show ?thesis using True
    by (simp add: slerp_def Quaternion_def Let_def)
next
  case False
  then have "1 \<le> d * h + a * e + b * f + c * g" using assms by simp
  then show ?thesis using False
    by (simp add: slerp_def Quaternion_def Let_def)
qed

lemma slerp_linear:
  assumes "t \<noteq> 0" "t \<noteq> 1" "k = d * h + a * e + b * f + c * g" "\<bar>k\<bar> < 1"
    "1 - \<bar>k\<bar> * \<bar>k\<bar> \<le> 1 / 2 ^ 52" "sg = (if k < 0 then - 1 else 1)"
  shows "slerp (Quaternion a b c d) (Quaternion e f g h) (Fin t) =
           normalize (Quaternion ((1 - t) * a + t * (sg * e)) ((1 - t) * b + t * (sg * f))
                                 ((1 - t) * c + t * (sg * g)) ((1 - t) * d + t * (sg * h)))"
proof (cases "k < 0")
  case True
  then show ?thesis using assms
    by (simp add: slerp_def Quaternion_def Let_def Number_EPSILON_def)
next
  case False
  then show ?thesis using assms
    by (simp add: slerp_def Quaternion_def Let_def Number_EPSILON_def)
qed

lemma slerp_spherical:
  assumes "t \<noteq> 0" "t \<noteq> 1" "k = d * h + a * e + b * f + c * g" "\<bar>k\<bar> < 1"
    "\<not> 1 - \<bar>k\<bar> * \<bar>k\<bar> \<le> 1 / 2 ^ 52" "sg = (if k < 0 then - 1 else 1)"
    "sn = sqrt (1 - \<bar>k\<bar> * \<bar>k\<bar>)" "\<theta> = atan2 sn \<bar>k\<bar>"
    "rA = sin ((1 - t) * \<theta>) / sn" "rB = sin (t * \<theta>) / sn"
  shows "slerp (Quaternion a b c d) (Quaternion e f g h) (Fin t) =
           Quaternion (a * rA + sg * e * rB) (b * rA + sg * f * rB)
                      (c * rA + sg * g * rB) (d * rA + sg * h * rB)"
proof -
  have pos: "0 < 1 - \<bar>k\<bar> * \<bar>k\<bar>" using assms(5)
    by (smt (verit) divide_nonneg_nonneg zero_le_numeral zero_le_power)
  then have sn: "sn \<noteq> 0" "0 \<le> 1 - \<bar>k\<bar> * \<bar>k\<bar>" unfolding assms(7) by simp_all
  show ?thesis
  proof (cases "k < 0")
    case True
    then show ?thesis using assms sn
      by (simp add: slerp_def Quaternion_def Let_def Number_EPSILON_def)
  next
    case False
    then show ?thesis using assms sn
      by (simp add: slerp_def Quaternion_def Let_def Number_EPSILON_def)
  qed
qed


lemma slerp_norm_real:
  fixes a b c d e f g h :: real
  assumes u1: "a * a + b * b + c * c + d * d = 1" and u2: "e * e + f * f + g * g + h * h = 1"
    and k: "a * e + b * f + c * g + d * h = cos (A + B)" and sn: "sn = sin (A + B)" "sn \<noteq> 0"
    and r: "rA = sin A / sn" "rB = sin B / sn"
  shows "(a * rA + e * rB) * (a * rA + e * rB) + (b * rA + f * rB) * (b * rA + f * rB)
       + (c * rA + g * rB) * (c * rA + g * rB) + (d * rA + h * rB) * (d * rA + h * rB) = 1"
proof -
  have "(a * rA + e * rB) * (a * rA + e * rB) + (b * rA + f * rB) * (b * rA + f * rB)
       + (c * rA + g * rB) * (c * rA + g * rB) + (d * rA + h * rB) * (d * rA + h * rB)
      = (a * a + b * b + c * c + d * d) * (rA * rA) + (e * e + f * f + g * g + h * h) * (rB * rB)
        + 2 * (a * e + b * f + c * g + d * h) * (rA * rB)"
    by (simp add: algebra_simps)
  also have "\<dots> = rA * rA + rB * rB + 2 * cos (A + B) * (rA * rB)"
    unfolding u1 u2 k by simp
  also have "\<dots> = ((sin A)\<^sup>2 + (sin B)\<^sup>2 + 2 * sin A * sin B * cos (A + B)) / (sn * sn)"
    unfolding r by (simp add: power2_eq_square add_divide_distrib)
  also have "\<dots> = (sin (A + B))\<^sup>2 / (sn * sn)"
    by (simp only: slerp_trig)
  also have "\<dots> = 1" using sn by (simp add: power2_eq_square)
  finally show ?thesis .
qed

lemma slerp_unit:
  assumes u1: "a * a + b * b + c * c + d * d = 1" and u2: "e * e + f * f + g * g + h * h = 1"
  shows "\<exists>p q r s. slerp (Quaternion a b c d) (Quaternion e f g h) (Fin t) = Quaternion p q r s
            \<and> p * p + q * q + r * r + s * s = 1"
proof -
  define k where "k = d * h + a * e + b * f + c * g"
  define sg :: real where "sg = (if k < 0 then - 1 else 1)"
  have sg2: "sg * sg = 1" and sgk: "sg * k = \<bar>k\<bar>" by (simp_all add: sg_def)
  consider (t0) "t = 0" | (t1) "t = 1" | (ge1) "1 \<le> \<bar>k\<bar>"
    | (lin) "t \<noteq> 0" "t \<noteq> 1" "\<bar>k\<bar> < 1" "1 - \<bar>k\<bar> * \<bar>k\<bar> \<le> 1 / 2 ^ 52"
    | (sph) "t \<noteq> 0" "t \<noteq> 1" "\<bar>k\<bar> < 1" "\<not> 1 - \<bar>k\<bar> * \<bar>k\<bar> \<le> 1 / 2 ^ 52"
    by fastforce
  then show ?thesis
  proof cases
    case t0
    then show ?thesis using u1 by (auto simp add: slerp_t0)
  next
    case t1
    then show ?thesis using u2 by (auto simp add: slerp_t1)
  next
    case ge1
    then show ?thesis using u1 u2 slerp_cos_ge1 [of d h a e b f c g t] unfolding k_def by auto
  next
    case lin
    show ?thesis
      unfolding slerp_linear [OF lin(1,2) k_def lin(3,4) sg_def]
      by (rule normalize_unit)
  next
    case sph
    define sn where "sn = sqrt (1 - \<bar>k\<bar> * \<bar>k\<bar>)"
    define \<theta> where "\<theta> = atan2 sn \<bar>k\<bar>"
    define rA where "rA = sin ((1 - t) * \<theta>) / sn"
    define rB where "rB = sin (t * \<theta>) / sn"
    have "\<bar>k\<bar> * \<bar>k\<bar> \<le> \<bar>k\<bar> * 1"
      by (rule mult_left_mono) (use sph(3) in simp_all)
    then have pos: "0 < 1 - \<bar>k\<bar> * \<bar>k\<bar>"
      using sph(3) by simp
    then have sn: "0 < sn" "sn * sn + \<bar>k\<bar> * \<bar>k\<bar> = 1" unfolding sn_def by simp_all
    have cs: "cos \<theta> = \<bar>k\<bar>" "sin \<theta> = sn"
      unfolding \<theta>_def using atan2_cos_sin [OF sn(2)] sn(1) by simp_all
    have AB: "(1 - t) * \<theta> + t * \<theta> = \<theta>" by (simp add: algebra_simps)
    have u2': "(sg * e) * (sg * e) + (sg * f) * (sg * f) + (sg * g) * (sg * g) + (sg * h) * (sg * h) = 1"
    proof -
      have "(sg * e) * (sg * e) + (sg * f) * (sg * f) + (sg * g) * (sg * g) + (sg * h) * (sg * h)
            = (sg * sg) * (e * e + f * f + g * g + h * h)" by (simp add: algebra_simps)
      then show ?thesis by (simp add: sg2 u2)
    qed
    have k': "a * (sg * e) + b * (sg * f) + c * (sg * g) + d * (sg * h) = cos ((1 - t) * \<theta> + t * \<theta>)"
    proof -
      have "a * (sg * e) + b * (sg * f) + c * (sg * g) + d * (sg * h) = sg * k"
        by (simp add: k_def algebra_simps)
      then show ?thesis by (simp add: sgk cs AB)
    qed
    have "(a * rA + sg * e * rB) * (a * rA + sg * e * rB) + (b * rA + sg * f * rB) * (b * rA + sg * f * rB)
       + (c * rA + sg * g * rB) * (c * rA + sg * g * rB) + (d * rA + sg * h * rB) * (d * rA + sg * h * rB) = 1"
      using slerp_norm_real [OF u1 u2' k', of sn rA rB] sn(1) cs(2)
      by (simp add: AB rA_def rB_def)
    then show ?thesis
      unfolding slerp_spherical [OF sph(1,2) k_def sph(3,4) sg_def sn_def \<theta>_def rA_def rB_def]
      by blast
  qed
qed

section \<open>Unit quaternions\<close>

lemma is_Fin_iff: "is_Fin x \<longleftrightarrow> (\<exists>r. x = Fin r)"
  by (cases x) simp_all

lemma finite_vec3_iff: "finite_vec3 v \<longleftrightarrow> (\<exists>x y z. v = Vector3 x y z)"
proof
  assume "finite_vec3 v"
  then obtain x y z where "vx v = Fin x" "vy v = Fin y" "vz v = Fin z"
    unfolding finite_vec3_def is_Fin_iff by blast
  then have "v = Vector3 x y z" by (simp add: Vector3_def)
  then show "\<exists>x y z. v = Vector3 x y z" by blast
next
  assume "\<exists>x y z. v = Vector3 x y z"
  then show "finite_vec3 v" by (auto simp add: finite_vec3_def Vector3_def)
qed

lemma finite_quat_iff: "finite_quat q \<longleftrightarrow> (\<exists>a b c d. q = Quaternion a b c d)"
proof
  assume "finite_quat q"
  then obtain a b c d where "qx q = Fin a" "qy q = Fin b" "qz q = Fin c" "qw q = Fin d"
    unfolding finite_quat_def is_Fin_iff by blast
  then have "q = Quaternion a b c d" by (simp add: Quaternion_def)
  then show "\<exists>a b c d. q = Quaternion a b c d" by blast
next
  assume "\<exists>a b c d. q = Quaternion a b c d"
  then show "finite_quat q" by (auto simp add: finite_quat_def Quaternion_def)
qed

lemma quat_lengthSq_Fin_finite:
  assumes "quat_lengthSq q = Fin n"
  shows "finite_quat q"
proof -
  have "is_Fin (qx q) \<and> is_Fin (qy q) \<and> is_Fin (qz q) \<and> is_Fin (qw q)"
    using assms unfolding quat_lengthSq_def
    by (cases "qx q"; cases "qy q"; cases "qz q"; cases "qw q") simp_all
  then show ?thesis by (simp add: finite_quat_def)
qed

lemma quat_lengthSq_Fin [simp]:
  "quat_lengthSq (Quaternion a b c d) = Fin (a * a + b * b + c * c + d * d)"
  by (simp add: quat_lengthSq_def Quaternion_def)

lemma unit_quat_Fin: "unit_quat (Quaternion a b c d) \<longleftrightarrow> a * a + b * b + c * c + d * d = 1"
proof -
  have "0 \<le> a * a + b * b + c * c + d * d" by (simp add: add_nonneg_nonneg)
  then show ?thesis by (simp add: unit_quat_def quat_length_def)
qed

lemma unit_quat_iff:
  "unit_quat q \<longleftrightarrow> (\<exists>a b c d. q = Quaternion a b c d \<and> a * a + b * b + c * c + d * d = 1)"
proof
  assume u: "unit_quat q"
  then obtain n where "quat_lengthSq q = Fin n"
    unfolding unit_quat_def quat_length_def by (cases "quat_lengthSq q") (simp_all split: if_splits)
  then obtain a b c d where q: "q = Quaternion a b c d"
    using quat_lengthSq_Fin_finite finite_quat_iff by blast
  then show "\<exists>a b c d. q = Quaternion a b c d \<and> a * a + b * b + c * c + d * d = 1"
    using u unit_quat_Fin by blast
next
  assume "\<exists>a b c d. q = Quaternion a b c d \<and> a * a + b * b + c * c + d * d = 1"
  then show "unit_quat q" using unit_quat_Fin by blast
qed

lemma inverse_quat_Fin:
  "inverse_quat (Quaternion a b c d) = Quaternion (- a) (- b) (- c) d"
  by (simp add: inverse_quat_def conjugate_def Quaternion_def)

lemma multiply_Fin:
  "multiply (Quaternion a b c d) (Quaternion e f g h) =
     Quaternion (a * h + d * e + b * g - c * f) (b * h + d * f + c * e - a * g)
                (c * h + d * g + a * f - b * e) (d * h - a * e - b * f - c * g)"
  by (simp add: multiply_def Quaternion_def)

lemma four_square:
  fixes a b c d e f g h :: real
  shows "(a * h + d * e + b * g - c * f) * (a * h + d * e + b * g - c * f)
       + (b * h + d * f + c * e - a * g) * (b * h + d * f + c * e - a * g)
       + (c * h + d * g + a * f - b * e) * (c * h + d * g + a * f - b * e)
       + (d * h - a * e - b * f - c * g) * (d * h - a * e - b * f - c * g)
       = (a * a + b * b + c * c + d * d) * (e * e + f * f + g * g + h * h)"
  by (simp add: algebra_simps)

lemma unit_quat_inverse: "unit_quat q \<Longrightarrow> unit_quat (inverse_quat q)"
proof -
  assume "unit_quat q"
  then obtain a b c d where q: "q = Quaternion a b c d" "a * a + b * b + c * c + d * d = 1"
    unfolding unit_quat_iff by blast
  show ?thesis unfolding q(1) inverse_quat_Fin unit_quat_Fin using q(2) by simp
qed

lemma unit_quat_multiply: "unit_quat p \<Longrightarrow> unit_quat q \<Longrightarrow> unit_quat (multiply p q)"
proof -
  assume "unit_quat p" "unit_quat q"
  then obtain a b c d e f g h where
    p: "p = Quaternion a b c d" "a * a + b * b + c * c + d * d = 1" and
    q: "q = Quaternion e f g h" "e * e + f * f + g * g + h * h = 1"
    unfolding unit_quat_iff by blast
  show ?thesis
    unfolding p(1) q(1) multiply_Fin unit_quat_Fin four_square p(2) q(2) by simp
qed

lemma unit_quat_slerp:
  assumes "unit_quat p" "unit_quat q"
  shows "unit_quat (slerp p q (Fin t))"
proof -
  obtain a b c d e f g h where
    p: "p = Quaternion a b c d" "a * a + b * b + c * c + d * d = 1" and
    q: "q = Quaternion e f g h" "e * e + f * f + g * g + h * h = 1"
    using assms unfolding unit_quat_iff by blast
  show ?thesis
    unfolding p(1) q(1) using slerp_unit [OF p(2) q(2)] unit_quat_iff by blast
qed

lemma unit_quat_new: "unit_quat Quaternion_new"
  by (simp add: Quaternion_new_def unit_quat_Fin)

lemma setFromQuaternion_ey:
  "\<exists>y. ey (setFromQuaternion (Quaternion a b c d)) = Fin y"
  by (simp add: setFromQuaternion_def setFromRotationMatrix_def makeRotationFromQuaternion_def
      Quaternion_def Let_def)

lemma headYawQ_Fin:
  assumes "finite_quat (headQ s)"
  shows "\<exists>y. update_headYawQ s = Quaternion 0 (sin (y / 2)) 0 (cos (y / 2))"
proof -
  obtain a b c d where h: "headQ s = Quaternion a b c d"
    using assms finite_quat_iff by blast
  obtain y where y: "ey (setFromQuaternion (Quaternion a b c d)) = Fin y"
    using setFromQuaternion_ey by blast
  have "update_headYawQ s = Quaternion 0 (sin (y / 2)) 0 (cos (y / 2))"
    unfolding update_headYawQ_def getHeadYawOrientation_def h setFromEuler_def Let_def
    by (simp add: y) (simp add: Quaternion_def)
  then show ?thesis by blast
qed

lemma unit_quat_headYawQ:
  assumes "finite_quat (headQ s)"
  shows "unit_quat (update_headYawQ s)"
proof -
  obtain y where "update_headYawQ s = Quaternion 0 (sin (y / 2)) 0 (cos (y / 2))"
    using headYawQ_Fin [OF assms] by blast
  then show ?thesis
    using sin_cos_squared_add [of "y / 2"] by (simp add: unit_quat_Fin power2_eq_square)
qed

section \<open>The suppression of the blend\<close>

lemma lerpSuppression_of_Fin: "lerpSuppression_of (Fin d) = Fin (1 - (d / 180) ^ 4)"
  by (simp add: lerpSuppression_of_def)

lemma lerpSuppression_limit:
  assumes "0 < \<epsilon>"
  shows "\<exists>\<delta>>0. \<forall>d. 180 - \<delta> < d \<and> d \<le> 180 \<longrightarrow> \<bar>1 - (d / 180) ^ 4\<bar> < (\<epsilon>::real)"
proof -
  define \<delta> where "\<delta> = min 180 (45 * \<epsilon>)"
  have \<delta>: "0 < \<delta>" "\<delta> \<le> 180" "\<delta> \<le> 45 * \<epsilon>" using assms by (simp_all add: \<delta>_def)
  have "\<bar>1 - (d / 180) ^ 4\<bar> < \<epsilon>" if d: "180 - \<delta> < d" "d \<le> 180" for d
  proof -
    define x where "x = d / 180"
    have x: "0 \<le> x" "x \<le> 1" "1 - x < \<epsilon> / 4"
      using d \<delta> by (simp_all add: x_def field_simps)
    have f: "1 - x ^ 4 = (1 - x) * ((1 + x) * (1 + x\<^sup>2))"
      by (simp add: power4_eq_xxxx power2_eq_square algebra_simps)
    have "x\<^sup>2 \<le> 1" using x by (simp add: power_le_one)
    then have "(1 + x) * (1 + x\<^sup>2) \<le> 2 * 2"
      using x by (intro mult_mono) simp_all
    then have "(1 - x) * ((1 + x) * (1 + x\<^sup>2)) \<le> (1 - x) * 4"
      using x by (intro mult_left_mono) simp_all
    moreover have "0 \<le> (1 - x) * ((1 + x) * (1 + x\<^sup>2))"
      using x by (intro mult_nonneg_nonneg) simp_all
    ultimately have "0 \<le> 1 - x ^ 4" "1 - x ^ 4 < \<epsilon>" using x(3) unfolding f by simp_all
    then show ?thesis unfolding x_def by simp
  qed
  then show ?thesis using \<delta>(1) by blast
qed

text \<open>
  C6. \<open>lerpSuppression = 1 - (totalAngleDeg / 180)^4\<close>, as \<open>update()\<close> computes it from the total
  angle: it is 1 at 0 degrees and 0 at 180 degrees, it does not increase on \<open>[0, 180]\<close> (where
  it stays in \<open>[0, 1]\<close>), and it tends to 0 as the angle tends to 180 from below.
\<close>

theorem lerpSuppression_shape:
  "lerpSuppression_of (Fin 0) = Fin 1
   \<and> lerpSuppression_of (Fin 180) = Fin 0
   \<and> (0 \<le> d1 \<and> d1 \<le> d2 \<and> d2 \<le> 180 \<longrightarrow>
        (\<exists>l1 l2. lerpSuppression_of (Fin d1) = Fin l1 \<and> lerpSuppression_of (Fin d2) = Fin l2
            \<and> l2 \<le> l1 \<and> 0 \<le> l2 \<and> l1 \<le> 1))
   \<and> (0 < \<epsilon> \<longrightarrow>
        (\<exists>\<delta>>0. \<forall>d. 180 - \<delta> < d \<and> d \<le> 180 \<longrightarrow>
            (\<exists>l. lerpSuppression_of (Fin d) = Fin l \<and> \<bar>l\<bar> < \<epsilon>)))
   \<and> update_lerpSuppression now s = lerpSuppression_of (radToDeg (update_totalAngle now s))"
proof -
  have mono: "\<exists>l1 l2. lerpSuppression_of (Fin d1) = Fin l1 \<and> lerpSuppression_of (Fin d2) = Fin l2
            \<and> l2 \<le> l1 \<and> 0 \<le> l2 \<and> l1 \<le> 1" if "0 \<le> d1" "d1 \<le> d2" "d2 \<le> 180"
  proof -
    have "(d1 / 180) ^ 4 \<le> (d2 / 180) ^ 4"
      using that by (intro power_mono) simp_all
    moreover have "(d2 / 180) ^ 4 \<le> 1"
      using that by (intro power_le_one) simp_all
    moreover have "0 \<le> (d1 / 180) ^ 4" by simp
    ultimately show ?thesis by (simp add: lerpSuppression_of_Fin)
  qed
  have lim: "\<exists>\<delta>>0. \<forall>d. 180 - \<delta> < d \<and> d \<le> 180 \<longrightarrow>
            (\<exists>l. lerpSuppression_of (Fin d) = Fin l \<and> \<bar>l\<bar> < \<epsilon>)" if "0 < \<epsilon>"
    using lerpSuppression_limit [OF that] by (simp add: lerpSuppression_of_Fin)
  show ?thesis
    using mono lim
    by (simp add: lerpSuppression_of_Fin update_lerpSuppression_def update_totalAngleDeg_def)
qed

theorem lerpSuppression_shape_witness:
  "(0::real) \<le> 45 \<and> (45::real) \<le> 90 \<and> (90::real) \<le> 180
   \<and> (\<exists>l1 l2. lerpSuppression_of (Fin 45) = Fin l1 \<and> lerpSuppression_of (Fin 90) = Fin l2
            \<and> l2 \<le> l1 \<and> 0 \<le> l2 \<and> l1 \<le> 1)
   \<and> (0::real) < 1
   \<and> (\<exists>\<delta>>0. \<forall>d. 180 - \<delta> < d \<and> d \<le> 180 \<longrightarrow>
            (\<exists>l. lerpSuppression_of (Fin d) = Fin l \<and> \<bar>l\<bar> < 1))"
  using lerpSuppression_shape [of 45 90 1 "Fin 0" OrientationArmModel]
  by simp

section \<open>The values of \<open>update()\<close> on a valid state\<close>

lemma unit_quat_nonzero:
  assumes "unit_quat q"
  obtains a b c d where "q = Quaternion a b c d" "a * a + b * b + c * c + d * d = 1"
    "a * a + b * b + c * c + d * d \<noteq> 0"
  using assms unfolding unit_quat_iff by force

lemma quatAngle_unit:
  assumes "unit_quat p" "unit_quat q"
  shows "\<exists>\<theta>. quatAngle p q = Fin \<theta> \<and> 0 \<le> \<theta> \<and> \<theta> \<le> pi"
proof -
  obtain a b c d where p: "p = Quaternion a b c d" "a * a + b * b + c * c + d * d \<noteq> 0"
    using unit_quat_nonzero [OF assms(1)] by metis
  obtain e f g h where q: "q = Quaternion e f g h" "e * e + f * f + g * g + h * h \<noteq> 0"
    using unit_quat_nonzero [OF assms(2)] by metis
  show ?thesis unfolding p(1) q(1) using quatAngle_range [OF p(2) q(2)] .
qed

lemma angleDelta_range:
  assumes "valid_state s"
  shows "\<exists>\<theta>. update_angleDelta s = Fin \<theta> \<and> 0 \<le> \<theta> \<and> \<theta> \<le> pi"
  using assms quatAngle_unit unfolding update_angleDelta_def valid_state_def by blast

lemma unit_quat_finite: "unit_quat q \<Longrightarrow> finite_quat q"
  unfolding unit_quat_iff finite_quat_iff by blast

lemma unit_update_headYawQ:
  assumes "valid_state s"
  shows "unit_quat (update_headYawQ s)"
  using assms unit_quat_headYawQ unit_quat_finite unfolding valid_state_def by blast

lemma unit_update_rootQ:
  assumes "valid_state s"
  shows "unit_quat (update_rootQ now s)"
proof -
  obtain \<theta> where a: "update_angleDelta s = Fin \<theta>" using angleDelta_range [OF assms] by blast
  have r: "unit_quat (rootQ s)" using assms by (simp add: valid_state_def)
  have "unit_quat (slerp (rootQ s) (update_headYawQ s) (Fin (\<theta> / 10)))"
    using r unit_update_headYawQ [OF assms] by (rule unit_quat_slerp)
  then show ?thesis
    using unit_update_headYawQ [OF assms] by (simp add: update_rootQ_def a)
qed

lemma unit_update_controllerCameraQ:
  assumes "valid_state s"
  shows "unit_quat (update_controllerCameraQ now s)"
  unfolding update_controllerCameraQ_def
  using assms unit_update_rootQ [OF assms] unit_quat_inverse unit_quat_multiply
  unfolding valid_state_def by blast

lemma totalAngle_range:
  assumes "valid_state s"
  shows "\<exists>\<theta>. update_totalAngle now s = Fin \<theta> \<and> 0 \<le> \<theta> \<and> \<theta> \<le> pi"
  unfolding update_totalAngle_def
  using unit_update_controllerCameraQ [OF assms] unit_quat_new quatAngle_unit by blast

lemma totalAngleDeg_range:
  assumes "valid_state s"
  shows "\<exists>d. update_totalAngleDeg now s = Fin d \<and> 0 \<le> d \<and> d \<le> 180"
proof -
  obtain \<theta> where t: "update_totalAngle now s = Fin \<theta>" "0 \<le> \<theta>" "\<theta> \<le> pi"
    using totalAngle_range [OF assms] by blast
  have "0 \<le> \<theta> * (180 / pi)" "\<theta> * (180 / pi) \<le> 180"
    using t(2,3) pi_gt_zero by (simp_all add: field_simps)
  then show ?thesis by (simp add: update_totalAngleDeg_def t(1))
qed

lemma lerpSuppression_range:
  assumes "valid_state s"
  shows "\<exists>l. update_lerpSuppression now s = Fin l \<and> 0 \<le> l \<and> l \<le> 1"
proof -
  obtain d where d: "update_totalAngleDeg now s = Fin d" "0 \<le> d" "d \<le> 180"
    using totalAngleDeg_range [OF assms] by blast
  have "(d / 180) ^ 4 \<le> 1" using d(2,3) by (intro power_le_one) simp_all
  then show ?thesis by (simp add: update_lerpSuppression_def d(1) lerpSuppression_of_Fin)
qed

lemma extensionRatio_range:
  assumes "valid_state s"
  shows "\<exists>r. update_extensionRatio s = Fin r \<and> 0 \<le> r \<and> r \<le> 1"
proof -
  obtain a b c d where "controllerQ s = Quaternion a b c d"
    using assms unfolding valid_state_def unit_quat_iff by blast
  then obtain p where "update_controllerXDeg s = Fin p"
    using controllerXDeg_finite by blast
  then show ?thesis by (simp add: update_extensionRatio_def extensionRatio_of_Fin)
qed

lemma lerpValue_of_Fin:
  "lerpValue_of (Fin l) (Fin r) = Fin (l * (0.4 + (1 - 0.4) * r * 0.4))"
  by (simp add: lerpValue_of_def ELBOW_BEND_RATIO_def EXTENSION_RATIO_WEIGHT_def Let_def)

lemma lerpValue_range:
  assumes "valid_state s"
  shows "\<exists>v. update_lerpValue now s = Fin v \<and> 0 \<le> v \<and> v \<le> 0.64"
proof -
  obtain l where l: "update_lerpSuppression now s = Fin l" "0 \<le> l" "l \<le> 1"
    using lerpSuppression_range [OF assms] by blast
  obtain r where r: "update_extensionRatio s = Fin r" "0 \<le> r" "r \<le> 1"
    using extensionRatio_range [OF assms] by blast
  define m where "m = 0.4 + (1 - 0.4) * r * 0.4"
  have m: "0 \<le> m" "m \<le> 0.64" using r(2,3) by (simp_all add: m_def)
  have "l * m \<le> 1 * 0.64" using l m by (intro mult_mono) simp_all
  moreover have "0 \<le> l * m" using l m by simp
  ultimately show ?thesis
    by (simp add: update_lerpValue_def l(1) r(1) lerpValue_of_Fin m_def)
qed

lemma unit_update_wristQ_slerped:
  assumes "valid_state s"
  shows "unit_quat (update_wristQ_slerped now s)"
proof -
  obtain v where "update_lerpValue now s = Fin v" using lerpValue_range [OF assms] by blast
  then show ?thesis
    unfolding update_wristQ_slerped_def
    using unit_quat_slerp [OF unit_quat_new unit_update_controllerCameraQ [OF assms]] by simp
qed

lemma unit_update_invWristQ:
  assumes "valid_state s"
  shows "unit_quat (update_invWristQ now s)"
  unfolding update_invWristQ_def
  using unit_update_wristQ_slerped [OF assms] by (rule unit_quat_inverse)

lemma unit_update_elbowQ:
  assumes "valid_state s"
  shows "unit_quat (update_elbowQ now s)"
  unfolding update_elbowQ_def
  using unit_update_controllerCameraQ [OF assms] unit_update_invWristQ [OF assms]
  by (rule unit_quat_multiply)

lemma finite_vec3_Vector3 [simp]: "finite_vec3 (Vector3 x y z)"
  by (simp add: finite_vec3_def Vector3_def)

lemma finite_vec3_add: "finite_vec3 u \<Longrightarrow> finite_vec3 v \<Longrightarrow> finite_vec3 (add u v)"
  unfolding finite_vec3_iff by (auto simp add: add_def Vector3_def)

lemma finite_vec3_multiplyScalar: "finite_vec3 u \<Longrightarrow> finite_vec3 (multiplyScalar u (Fin r))"
  unfolding finite_vec3_iff by (auto simp add: multiplyScalar_def Vector3_def)

lemma finite_vec3_applyQuaternion:
  "finite_vec3 u \<Longrightarrow> finite_quat q \<Longrightarrow> finite_vec3 (applyQuaternion u q)"
  unfolding finite_vec3_iff finite_quat_iff using applyQuaternion_Fin by blast

lemma finite_update_elbowPos:
  assumes "valid_state s"
  shows "finite_vec3 (update_elbowPos s)"
proof -
  obtain r where r: "update_extensionRatio s = Fin r" using extensionRatio_range [OF assms] by blast
  have "finite_vec3 (headPos s)" using assms by (simp add: valid_state_def)
  then show ?thesis
    unfolding update_elbowPos_def r HEAD_ELBOW_OFFSET_def ARM_EXTENSION_OFFSET_def
    by (intro finite_vec3_add finite_vec3_multiplyScalar) simp_all
qed

lemma finite_update_wristPos:
  assumes "valid_state s"
  shows "finite_vec3 (update_wristPos now s)"
  unfolding update_wristPos_def update_wristQ_def WRIST_CONTROLLER_OFFSET_def
    ELBOW_WRIST_OFFSET_def
  by (intro finite_vec3_add finite_vec3_applyQuaternion finite_vec3_Vector3
      unit_quat_finite unit_update_invWristQ unit_update_elbowQ finite_update_elbowPos assms)

lemma finite_update_position:
  assumes "valid_state s"
  shows "finite_vec3 (update_position now s)"
proof -
  obtain r where r: "update_extensionRatio s = Fin r" using extensionRatio_range [OF assms] by blast
  show ?thesis
    unfolding update_position_def r ARM_EXTENSION_OFFSET_def
    by (intro finite_vec3_add finite_vec3_applyQuaternion finite_vec3_multiplyScalar
        finite_vec3_Vector3 unit_quat_finite unit_update_rootQ finite_update_wristPos assms)
qed

lemma finite_pose_update:
  assumes "valid_state s"
  shows "finite_pose (getPose (update now s))"
  using assms finite_update_position [OF assms] unit_quat_finite
  by (simp add: getPose_def update_def finite_pose_def valid_state_def)

lemma valid_state_update:
  assumes "valid_state s"
  shows "valid_state (update now s)"
  using assms unit_update_rootQ [OF assms]
  by (simp add: update_def valid_state_def)

lemma valid_state_new: "valid_state OrientationArmModel"
  by (simp add: valid_state_def OrientationArmModel_def unit_quat_new Vector3_new_def)

lemma valid_state_setters:
  "valid_state s \<Longrightarrow> unit_quat q \<Longrightarrow> valid_state (setControllerOrientation q s)"
  "valid_state s \<Longrightarrow> unit_quat q \<Longrightarrow> valid_state (setHeadOrientation q s)"
  "valid_state s \<Longrightarrow> finite_vec3 p \<Longrightarrow> valid_state (setHeadPosition p s)"
  by (simp_all add: valid_state_def setControllerOrientation_def setHeadOrientation_def
      setHeadPosition_def)

lemma multiply_inverse_cancel:
  assumes "unit_quat w"
  shows "multiply (multiply (Quaternion a b c d) (inverse_quat w)) w = Quaternion a b c d"
proof -
  obtain e f g h where w: "w = Quaternion e f g h" "e * e + f * f + g * g + h * h = 1"
    using assms unfolding unit_quat_iff by blast
  have x: "(a * h + d * - e + b * - g - c * - f) * h + (d * h - a * - e - b * - f - c * - g) * e
         + (b * h + d * - f + c * - e - a * - g) * g - (c * h + d * - g + a * - f - b * - e) * f
         = a * (e * e + f * f + g * g + h * h)"
    by (simp add: algebra_simps)
  have y: "(b * h + d * - f + c * - e - a * - g) * h + (d * h - a * - e - b * - f - c * - g) * f
         + (c * h + d * - g + a * - f - b * - e) * e - (a * h + d * - e + b * - g - c * - f) * g
         = b * (e * e + f * f + g * g + h * h)"
    by (simp add: algebra_simps)
  have z: "(c * h + d * - g + a * - f - b * - e) * h + (d * h - a * - e - b * - f - c * - g) * g
         + (a * h + d * - e + b * - g - c * - f) * f - (b * h + d * - f + c * - e - a * - g) * e
         = c * (e * e + f * f + g * g + h * h)"
    by (simp add: algebra_simps)
  have v: "(d * h - a * - e - b * - f - c * - g) * h - (a * h + d * - e + b * - g - c * - f) * e
         - (b * h + d * - f + c * - e - a * - g) * f - (c * h + d * - g + a * - f - b * - e) * g
         = d * (e * e + f * f + g * g + h * h)"
    by (simp add: algebra_simps)
  show ?thesis
    unfolding w(1) inverse_quat_Fin multiply_Fin x y z v w(2) by simp
qed

section \<open>The joint rotations and the first frame\<close>

text \<open>
  C5. For every unit quaternion \<open>controllerCameraQ\<close> and every \<open>lerpValue\<close> in \<open>[0, 1]\<close>, the
  quaternions \<open>wristQ = slerp(identity, controllerCameraQ, lerpValue)\<close> and
  \<open>elbowQ = controllerCameraQ * inverse(wristQ)\<close> satisfy \<open>elbowQ * wristQ = controllerCameraQ\<close>;
  in a valid state the values \<open>update()\<close> computes are these, \<open>wristQ\<close> being the slerped
  quaternion. (Arithmetic is exact in the model, so the equation holds exactly.)
\<close>

theorem elbow_wrist_split_composes:
  "(unit_quat c \<and> 0 \<le> t \<and> t \<le> 1 \<longrightarrow>
      multiply (multiply c (inverse_quat (slerp Quaternion_new c (Fin t))))
               (slerp Quaternion_new c (Fin t)) = c)
   \<and> (valid_state s \<longrightarrow>
        update_wristQ_slerped now s
          = slerp Quaternion_new (update_controllerCameraQ now s) (update_lerpValue now s)
      \<and> update_elbowQ now s
          = multiply (update_controllerCameraQ now s) (inverse_quat (update_wristQ_slerped now s))
      \<and> multiply (update_elbowQ now s) (update_wristQ_slerped now s)
          = update_controllerCameraQ now s)"
proof -
  have 1: "multiply (multiply c (inverse_quat w)) w = c"
    if uc: "unit_quat c" and uw: "unit_quat w" for c w
  proof -
    obtain a b c' d where "c = Quaternion a b c' d" using uc unfolding unit_quat_iff by blast
    then show ?thesis using multiply_inverse_cancel [OF uw] by simp
  qed
  have 2: "multiply (multiply c (inverse_quat (slerp Quaternion_new c (Fin t))))
               (slerp Quaternion_new c (Fin t)) = c" if "unit_quat c"
    using 1 [OF that unit_quat_slerp [OF unit_quat_new that]] .
  have 3: "multiply (update_elbowQ now s) (update_wristQ_slerped now s)
          = update_controllerCameraQ now s" if "valid_state s"
    unfolding update_elbowQ_def update_invWristQ_def
    using unit_update_controllerCameraQ [OF that] unit_update_wristQ_slerped [OF that]
    by (rule 1)
  show ?thesis
    using 2 3 by (simp add: update_wristQ_slerped_def update_elbowQ_def update_invWristQ_def)
qed

theorem elbow_wrist_split_composes_witness:
  "unit_quat (Quaternion (3 / 5) 0 0 (4 / 5)) \<and> (0 :: real) \<le> 1 / 2 \<and> (1 / 2 :: real) \<le> 1
   \<and> multiply (multiply (Quaternion (3 / 5) 0 0 (4 / 5))
         (inverse_quat (slerp Quaternion_new (Quaternion (3 / 5) 0 0 (4 / 5)) (Fin (1 / 2)))))
       (slerp Quaternion_new (Quaternion (3 / 5) 0 0 (4 / 5)) (Fin (1 / 2)))
      = Quaternion (3 / 5) 0 0 (4 / 5)
   \<and> valid_state OrientationArmModel
   \<and> multiply (update_elbowQ (Fin 16) OrientationArmModel)
        (update_wristQ_slerped (Fin 16) OrientationArmModel)
      = update_controllerCameraQ (Fin 16) OrientationArmModel"
proof -
  have u: "unit_quat (Quaternion (3 / 5) 0 0 (4 / 5))" by (simp add: unit_quat_Fin)
  have t: "(0 :: real) \<le> 1 / 2" "(1 / 2 :: real) \<le> 1" by simp_all
  show ?thesis
    using elbow_wrist_split_composes [of "Quaternion (3 / 5) 0 0 (4 / 5)" "1 / 2"
        OrientationArmModel "Fin 16"] u t valid_state_new
    by blast
qed

text \<open>
  C9. \<open>quatAngle_\<close> of two unit quaternions is an angle in \<open>[0, \<pi>]\<close>. Hence, in every
  \<open>update()\<close> on a valid state, \<open>totalAngleDeg\<close> is in \<open>[0, 180]\<close>, \<open>lerpSuppression\<close> in
  \<open>[0, 1]\<close> and \<open>lerpValue\<close> in \<open>[0, 0.64]\<close>: the wrist slerp, whose parameter \<open>lerpValue\<close> is,
  interpolates between the identity and \<open>controllerCameraQ\<close> and never extrapolates.
\<close>

theorem lerpValue_interpolates:
  "(unit_quat p \<and> unit_quat q \<longrightarrow> (\<exists>\<theta>. quatAngle p q = Fin \<theta> \<and> 0 \<le> \<theta> \<and> \<theta> \<le> pi))
   \<and> (valid_state s \<longrightarrow>
        (\<exists>\<theta>. update_angleDelta s = Fin \<theta> \<and> 0 \<le> \<theta> \<and> \<theta> \<le> pi)
      \<and> (\<exists>\<theta>. update_totalAngle now s = Fin \<theta> \<and> 0 \<le> \<theta> \<and> \<theta> \<le> pi)
      \<and> (\<exists>d. update_totalAngleDeg now s = Fin d \<and> 0 \<le> d \<and> d \<le> 180)
      \<and> (\<exists>l. update_lerpSuppression now s = Fin l \<and> 0 \<le> l \<and> l \<le> 1)
      \<and> (\<exists>v. update_lerpValue now s = Fin v \<and> 0 \<le> v \<and> v \<le> 0.64)
      \<and> update_wristQ_slerped now s
          = slerp Quaternion_new (update_controllerCameraQ now s) (update_lerpValue now s))"
  using quatAngle_unit [of p q] angleDelta_range [of s] totalAngle_range [of s now]
    totalAngleDeg_range [of s now] lerpSuppression_range [of s now] lerpValue_range [of s now]
  by (simp add: update_wristQ_slerped_def)

theorem lerpValue_interpolates_witness:
  "unit_quat Quaternion_new \<and> unit_quat (Quaternion (3 / 5) 0 0 (4 / 5))
   \<and> (\<exists>\<theta>. quatAngle Quaternion_new (Quaternion (3 / 5) 0 0 (4 / 5)) = Fin \<theta> \<and> 0 \<le> \<theta> \<and> \<theta> \<le> pi)
   \<and> valid_state (setControllerOrientation (Quaternion (3 / 5) 0 0 (4 / 5)) OrientationArmModel)
   \<and> (\<exists>v. update_lerpValue (Fin 16)
            (setControllerOrientation (Quaternion (3 / 5) 0 0 (4 / 5)) OrientationArmModel) = Fin v
          \<and> 0 \<le> v \<and> v \<le> 0.64)"
proof -
  have u: "unit_quat (Quaternion (3 / 5) 0 0 (4 / 5))" by (simp add: unit_quat_Fin)
  have v: "valid_state (setControllerOrientation (Quaternion (3 / 5) 0 0 (4 / 5)) OrientationArmModel)"
    using valid_state_setters(1) [OF valid_state_new u] .
  show ?thesis
    using lerpValue_interpolates [of Quaternion_new "Quaternion (3 / 5) 0 0 (4 / 5)"
        "setControllerOrientation (Quaternion (3 / 5) 0 0 (4 / 5)) OrientationArmModel" "Fin 16"]
      u v unit_quat_new
    by simp
qed



section \<open>Two updates in a row\<close>

lemma quatAngle_self:
  assumes "finite_quat q"
  shows "quatAngle q q = Fin 0 \<or> quatAngle q q = NaN"
proof -
  obtain a b c d where q: "q = Quaternion a b c d" using assms finite_quat_iff by blast
  show ?thesis
  proof (cases "a * a + b * b + c * c + d * d = 0")
    case True
    have "0 \<le> a * a" "0 \<le> b * b" "0 \<le> c * c" "0 \<le> d * d" by simp_all
    with True have "a * a = 0" "b * b = 0" "c * c = 0" "d * d = 0" by linarith+
    then have "a = 0" "b = 0" "c = 0" "d = 0" by simp_all
    then show ?thesis unfolding q by (simp add: quatAngle_zero_left)
  next
    case False
    then show ?thesis unfolding q by (simp add: quatAngle_same)
  qed
qed

lemma zero_or_NaN_not_fast:
  assumes "x = Fin 0 \<or> x = NaN"
  shows "\<not> MIN_ANGULAR_SPEED < x / y"
  using assms by (cases y) (auto simp add: MIN_ANGULAR_SPEED_def split: if_splits)



section \<open>The root orientation\<close>

lemma quatAngle_identity_Y90:
  "quatAngle (Quaternion 0 0 0 1) (Quaternion 0 (sqrt 2 / 2) 0 (sqrt 2 / 2)) = Fin (pi / 2)"
proof -
  have 1: "applyQuaternion (Vector3 0 0 (- 1)) (Quaternion 0 0 0 1) = Vector3 0 0 (- 1)"
    unfolding forward_Fin by simp
  have 2: "applyQuaternion (Vector3 0 0 (- 1)) (Quaternion 0 (sqrt 2 / 2) 0 (sqrt 2 / 2))
           = Vector3 (- 1) 0 0"
    unfolding forward_Fin by simp
  have "angleTo (Vector3 0 0 (- 1)) (Vector3 (- 1) 0 0) = Fin (arccos 0)"
    by (subst angleTo_Fin) simp_all
  then show ?thesis
    unfolding quatAngle_def Let_def 1 2 by simp
qed

lemma fast_at_right_angle:
  assumes "update_angleDelta s = Fin (pi / 2)" "lastTime s = Some (Fin t0)"
  shows "MIN_ANGULAR_SPEED < update_controllerAngularSpeed (Fin (t0 + 16)) s"
proof -
  have "update_controllerAngularSpeed (Fin (t0 + 16)) s = Fin ((pi / 2) / (16 / 1000))"
    by (simp add: update_controllerAngularSpeed_def update_timeDelta_def assms)
  moreover have "(0.61 :: real) < (pi / 2) / (16 / 1000)"
    using pi_ge_two by simp
  ultimately show ?thesis by (simp add: MIN_ANGULAR_SPEED_def)
qed

text \<open>
  C3. After \<open>update()\<close>, \<open>rootQ\<close> is \<open>slerp(rootQ, headYawQ, angleDelta / 10)\<close> when
  \<open>controllerAngularSpeed = angleDelta / timeDelta\<close> exceeds \<open>MIN_ANGULAR_SPEED = 0.61\<close>, and
  \<open>headYawQ\<close> otherwise. When the pointing direction has changed by a right angle within 16 ms
  the speed exceeds the threshold and \<open>rootQ\<close> is slerped by the fraction \<open>\<pi> / 20\<close>, less than
  a fifth of the way.
\<close>

theorem root_hysteresis:
  "rootQ (update now s) =
      (if MIN_ANGULAR_SPEED < update_angleDelta s / update_timeDelta now s
       then slerp (rootQ s) (getHeadYawOrientation s) (update_angleDelta s / Fin 10)
       else getHeadYawOrientation s)
   \<and> update_controllerAngularSpeed now s = update_angleDelta s / update_timeDelta now s
   \<and> update_angleDelta s = quatAngle (lastControllerQ s) (controllerQ s)
   \<and> update_timeDelta now s = (now - ToNumber (lastTime s)) / Fin 1000
   \<and> MIN_ANGULAR_SPEED = Fin 0.61
   \<and> (update_angleDelta s = Fin (pi / 2) \<and> lastTime s = Some (Fin t0) \<longrightarrow>
        MIN_ANGULAR_SPEED < update_controllerAngularSpeed (Fin (t0 + 16)) s
        \<and> rootQ (update (Fin (t0 + 16)) s)
            = slerp (rootQ s) (getHeadYawOrientation s) (Fin (pi / 20))
        \<and> pi / 20 < (0.2 :: real))"
proof -
  have "rootQ (update (Fin (t0 + 16)) s)
            = slerp (rootQ s) (getHeadYawOrientation s) (Fin (pi / 20))"
    if a: "update_angleDelta s = Fin (pi / 2)" and l: "lastTime s = Some (Fin t0)"
    using fast_at_right_angle [OF a l]
    by (simp add: update_def update_rootQ_def update_headYawQ_def a)
  moreover have "pi / 20 < (0.2 :: real)" using pi_less_4 by simp
  ultimately show ?thesis
    using fast_at_right_angle [of s t0]
    by (simp add: update_def update_rootQ_def update_headYawQ_def
        update_controllerAngularSpeed_def update_angleDelta_def update_timeDelta_def
        MIN_ANGULAR_SPEED_def)
qed


lemma Quaternion_eq_iff:
  "Quaternion a b c d = Quaternion a' b' c' d' \<longleftrightarrow> a = a' \<and> b = b' \<and> c = c' \<and> d = d'"
  by (simp add: Quaternion_def)

lemma Vector3_eq_iff: "Vector3 x y z = Vector3 x' y' z' \<longleftrightarrow> x = x' \<and> y = y' \<and> z = z'"
  by (simp add: Vector3_def)

lemma getHeadYawOrientation_identity:
  assumes "headQ s = Quaternion 0 0 0 1"
  shows "getHeadYawOrientation s = Quaternion 0 0 0 1"
proof -
  have "ey (setFromQuaternion (Quaternion 0 0 0 1)) = Fin 0"
    by (simp add: setFromQuaternion_def setFromRotationMatrix_def makeRotationFromQuaternion_def
        Quaternion_def Let_def atan2_def)
  then show ?thesis
    unfolding getHeadYawOrientation_def assms setFromEuler_def Let_def
    by simp (simp add: Quaternion_def)
qed

lemma getHeadYawOrientation_Y90:
  assumes "headQ s = Quaternion 0 (sqrt 2 / 2) 0 (sqrt 2 / 2)"
  shows "getHeadYawOrientation s = Quaternion 0 (sqrt 2 / 2) 0 (sqrt 2 / 2)"
proof -
  have "ey (setFromQuaternion (Quaternion 0 (sqrt 2 / 2) 0 (sqrt 2 / 2))) = Fin (pi / 2)"
    by (simp add: setFromQuaternion_def setFromRotationMatrix_def makeRotationFromQuaternion_def
        Quaternion_def Let_def atan2_def)
  then show ?thesis
    unfolding getHeadYawOrientation_def assms setFromEuler_def Let_def
    by simp (simp add: Quaternion_def sin_45 cos_45)
qed

lemma slerp_identity_Y90_partial:
  "slerp (Quaternion 0 0 0 1) (Quaternion 0 (sqrt 2 / 2) 0 (sqrt 2 / 2)) (Fin (pi / 20))
     \<noteq> Quaternion 0 (sqrt 2 / 2) 0 (sqrt 2 / 2)"
proof -
  define k :: real where "k = 1 * (sqrt 2 / 2) + 0 * 0 + 0 * (sqrt 2 / 2) + 0 * 0"
  define sg :: real where "sg = (if k < 0 then - 1 else 1)"
  define sn where "sn = sqrt (1 - \<bar>k\<bar> * \<bar>k\<bar>)"
  define \<theta> where "\<theta> = atan2 sn \<bar>k\<bar>"
  define rA where "rA = sin ((1 - pi / 20) * \<theta>) / sn"
  define rB where "rB = sin (pi / 20 * \<theta>) / sn"
  have kv: "k = sqrt 2 / 2" by (simp add: k_def)
  have k0: "0 < k" "\<bar>k\<bar> = k" by (simp_all add: kv)
  have kk: "k * k = 1 / 2" by (simp add: kv)
  have k1: "\<bar>k\<bar> < 1"
  proof -
    have "sqrt 2 < sqrt 4" by (subst real_sqrt_less_iff) simp
    then show ?thesis by (simp add: kv)
  qed
  have eps: "\<not> 1 - \<bar>k\<bar> * \<bar>k\<bar> \<le> 1 / 2 ^ 52" by (simp add: k0 kk)
  have t0: "pi / 20 \<noteq> 0" using pi_gt_zero by simp
  have t1: "pi / 20 \<noteq> 1" using pi_less_4 by simp
  have sg1: "sg = 1" using k0 by (simp add: sg_def)
  have snv: "0 < sn" "sn * sn + \<bar>k\<bar> * \<bar>k\<bar> = 1" by (simp_all add: sn_def k0 kk)
  have cs: "cos \<theta> = \<bar>k\<bar>" "sin \<theta> = sn"
    unfolding \<theta>_def using atan2_cos_sin [OF snv(2)] snv(1) by simp_all
  have th: "0 < \<theta>" "\<theta> < pi / 2"
  proof -
    have "\<theta> = arctan (sn / k)" using k0 by (simp add: \<theta>_def atan2_def)
    moreover have "0 < sn / k" using snv(1) k0 by simp
    ultimately show "0 < \<theta>" "\<theta> < pi / 2"
      using arctan_ubound [of "sn / k"] by (simp_all add: zero_less_arctan_iff)
  qed
  have lt: "pi / 20 * \<theta> < \<theta>" using th(1) pi_less_4 by simp
  have p: "0 < pi / 20 * \<theta>" using th(1) pi_gt_zero by simp
  have b: "- (pi / 2) \<le> pi / 20 * \<theta>" "pi / 20 * \<theta> \<le> pi / 2" "- (pi / 2) \<le> \<theta>" "\<theta> \<le> pi / 2"
    using p lt th pi_gt_zero by linarith+
  have "sin (pi / 20 * \<theta>) < sin \<theta>"
    using lt by (simp only: sin_mono_less_eq [OF b])
  then have "rB < 1" using snv(1) by (simp add: rB_def cs)
  then have ne: "0 * rA + sg * (sqrt 2 / 2) * rB \<noteq> sqrt 2 / 2" by (simp add: sg1)
  have "slerp (Quaternion 0 0 0 1) (Quaternion 0 (sqrt 2 / 2) 0 (sqrt 2 / 2)) (Fin (pi / 20)) =
      Quaternion (0 * rA + sg * 0 * rB) (0 * rA + sg * (sqrt 2 / 2) * rB)
                 (0 * rA + sg * 0 * rB) (1 * rA + sg * (sqrt 2 / 2) * rB)"
    by (rule slerp_spherical [OF t0 t1 k_def k1 eps sg_def sn_def \<theta>_def rA_def rB_def])
  then show ?thesis using ne by (simp only: Quaternion_eq_iff) blast
qed

lemma rootQ_first_update:
  "rootQ (update (Fin 1000) OrientationArmModel) = Quaternion 0 0 0 1"
proof -
  have a: "update_angleDelta OrientationArmModel = Fin 0"
    unfolding update_angleDelta_def OrientationArmModel_def Quaternion_new_def
    by (simp add: quatAngle_same)
  have t: "update_timeDelta (Fin 1000) OrientationArmModel = Fin 1"
    by (simp add: update_timeDelta_def OrientationArmModel_def)
  have h: "getHeadYawOrientation OrientationArmModel = Quaternion 0 0 0 1"
    by (rule getHeadYawOrientation_identity) (simp add: OrientationArmModel_def Quaternion_new_def)
  show ?thesis
    by (simp add: update_def update_rootQ_def update_controllerAngularSpeed_def a t
        MIN_ANGULAR_SPEED_def update_headYawQ_def h)
qed

lemma quarter_turn_fields:
  "lastControllerQ quarter_turn_scenario = Quaternion 0 0 0 1"
  "controllerQ quarter_turn_scenario = Quaternion 0 (sqrt 2 / 2) 0 (sqrt 2 / 2)"
  "headQ quarter_turn_scenario = Quaternion 0 (sqrt 2 / 2) 0 (sqrt 2 / 2)"
  "lastTime quarter_turn_scenario = Some (Fin 1000)"
  "rootQ quarter_turn_scenario = Quaternion 0 0 0 1"
proof -
  show "rootQ quarter_turn_scenario = Quaternion 0 0 0 1"
    using rootQ_first_update
    by (simp add: quarter_turn_scenario_def setHeadOrientation_def setControllerOrientation_def)
qed (simp_all add: quarter_turn_scenario_def setHeadOrientation_def setControllerOrientation_def
      update_def OrientationArmModel_def Quaternion_new_def)

theorem root_hysteresis_witness:
  "update_angleDelta quarter_turn_scenario = Fin (pi / 2)
   \<and> lastTime quarter_turn_scenario = Some (Fin 1000)
   \<and> MIN_ANGULAR_SPEED < update_controllerAngularSpeed (Fin (1000 + 16)) quarter_turn_scenario
   \<and> rootQ (update (Fin (1000 + 16)) quarter_turn_scenario)
       = slerp (rootQ quarter_turn_scenario) (getHeadYawOrientation quarter_turn_scenario)
           (Fin (pi / 20))
   \<and> rootQ (update (Fin (1000 + 16)) quarter_turn_scenario)
       \<noteq> getHeadYawOrientation quarter_turn_scenario"
proof -
  have a: "update_angleDelta quarter_turn_scenario = Fin (pi / 2)"
    unfolding update_angleDelta_def quarter_turn_fields by (rule quatAngle_identity_Y90)
  have h: "getHeadYawOrientation quarter_turn_scenario = Quaternion 0 (sqrt 2 / 2) 0 (sqrt 2 / 2)"
    using quarter_turn_fields(3) by (rule getHeadYawOrientation_Y90)
  have r: "MIN_ANGULAR_SPEED < update_controllerAngularSpeed (Fin (1000 + 16)) quarter_turn_scenario
      \<and> rootQ (update (Fin (1000 + 16)) quarter_turn_scenario)
       = slerp (rootQ quarter_turn_scenario) (getHeadYawOrientation quarter_turn_scenario)
           (Fin (pi / 20))"
    using root_hysteresis [of "Fin 0" quarter_turn_scenario 1000] a quarter_turn_fields(4)
    by blast
  have "slerp (rootQ quarter_turn_scenario) (getHeadYawOrientation quarter_turn_scenario)
           (Fin (pi / 20)) \<noteq> getHeadYawOrientation quarter_turn_scenario"
    unfolding h quarter_turn_fields(5) by (rule slerp_identity_Y90_partial)
  then show ?thesis using a r quarter_turn_fields(4) by simp
qed

section \<open>The wrist position\<close>

lemma raised_fields:
  "lastControllerQ raised_controller_state = Quaternion (sqrt 2 / 2) 0 0 (sqrt 2 / 2)"
  "controllerQ raised_controller_state = Quaternion (sqrt 2 / 2) 0 0 (sqrt 2 / 2)"
  "headQ raised_controller_state = Quaternion 0 0 0 1"
  "lastTime raised_controller_state = None"
  "rootQ raised_controller_state = Quaternion 0 0 0 1"
  "headPos raised_controller_state = Vector3 0 0 0"
  by (simp_all add: raised_controller_state_def setControllerOrientation_def
      OrientationArmModel_def Quaternion_new_def Vector3_new_def)

lemma raised_rootQ: "update_rootQ (Fin 1000) raised_controller_state = Quaternion 0 0 0 1"
proof -
  have a: "update_angleDelta raised_controller_state = Fin 0"
    unfolding update_angleDelta_def raised_fields by (simp add: quatAngle_same)
  have t: "update_timeDelta (Fin 1000) raised_controller_state = Fin 1"
    by (simp add: update_timeDelta_def raised_fields)
  have h: "getHeadYawOrientation raised_controller_state = Quaternion 0 0 0 1"
    using raised_fields(3) by (rule getHeadYawOrientation_identity)
  show ?thesis
    by (simp add: update_rootQ_def update_controllerAngularSpeed_def a t
        MIN_ANGULAR_SPEED_def update_headYawQ_def h)
qed

lemma raised_controllerCameraQ:
  "update_controllerCameraQ (Fin 1000) raised_controller_state
     = Quaternion (sqrt 2 / 2) 0 0 (sqrt 2 / 2)"
  unfolding update_controllerCameraQ_def raised_rootQ raised_fields inverse_quat_Fin multiply_Fin
  by (simp add: Quaternion_eq_iff)

lemma raised_extensionRatio: "update_extensionRatio raised_controller_state = Fin 1"
proof -
  have "update_controllerXDeg raised_controller_state = Fin 90"
    unfolding update_controllerXDeg_def setFromQuaternion_def ex_setFromRotationMatrix
      raised_fields makeRotationFromQuaternion_m23 Math2_clamp_Fin
    by simp
  then show ?thesis by (simp add: update_extensionRatio_def extensionRatio_of_Fin)
qed

lemma raised_totalAngle: "update_totalAngle (Fin 1000) raised_controller_state = Fin (pi / 2)"
proof -
  have 1: "applyQuaternion (Vector3 0 0 (- 1)) (Quaternion (sqrt 2 / 2) 0 0 (sqrt 2 / 2))
           = Vector3 0 1 0"
    unfolding forward_Fin by (simp add: Vector3_eq_iff)
  have 2: "applyQuaternion (Vector3 0 0 (- 1)) (Quaternion 0 0 0 1) = Vector3 0 0 (- 1)"
    unfolding forward_Fin by simp
  have "angleTo (Vector3 0 1 0) (Vector3 0 0 (- 1)) = Fin (arccos 0)"
    by (subst angleTo_Fin) simp_all
  then show ?thesis
    unfolding update_totalAngle_def raised_controllerCameraQ Quaternion_new_def quatAngle_def
      Let_def 1 2
    by simp
qed

lemma raised_lerpValue: "update_lerpValue (Fin 1000) raised_controller_state = Fin (3 / 5)"
  by (simp add: update_lerpValue_def update_lerpSuppression_def update_totalAngleDeg_def
      raised_totalAngle raised_extensionRatio lerpSuppression_of_Fin lerpValue_of_Fin
      power_divide)

lemma slerp_identity_X90:
  assumes "0 < t" "t < 1"
  shows "\<exists>X W. 0 < X \<and> 0 < W \<and>
     slerp (Quaternion 0 0 0 1) (Quaternion (sqrt 2 / 2) 0 0 (sqrt 2 / 2)) (Fin t)
       = Quaternion X 0 0 W"
proof -
  define k :: real where "k = 1 * (sqrt 2 / 2) + 0 * (sqrt 2 / 2) + 0 * 0 + 0 * 0"
  define sg :: real where "sg = (if k < 0 then - 1 else 1)"
  define sn where "sn = sqrt (1 - \<bar>k\<bar> * \<bar>k\<bar>)"
  define \<theta> where "\<theta> = atan2 sn \<bar>k\<bar>"
  define rA where "rA = sin ((1 - t) * \<theta>) / sn"
  define rB where "rB = sin (t * \<theta>) / sn"
  have kv: "k = sqrt 2 / 2" by (simp add: k_def)
  have k0: "0 < k" "\<bar>k\<bar> = k" by (simp_all add: kv)
  have kk: "k * k = 1 / 2" by (simp add: kv)
  have k1: "\<bar>k\<bar> < 1"
  proof -
    have "sqrt 2 < sqrt 4" by (subst real_sqrt_less_iff) simp
    then show ?thesis by (simp add: kv)
  qed
  have eps: "\<not> 1 - \<bar>k\<bar> * \<bar>k\<bar> \<le> 1 / 2 ^ 52" by (simp add: k0 kk)
  have t0: "t \<noteq> 0" and t1: "t \<noteq> 1" using assms by simp_all
  have sg1: "sg = 1" using k0 by (simp add: sg_def)
  have snv: "0 < sn" by (simp add: sn_def k0 kk)
  have th: "0 < \<theta>" "\<theta> < pi / 2"
  proof -
    have "\<theta> = arctan (sn / k)" using k0 by (simp add: \<theta>_def atan2_def)
    moreover have "0 < sn / k" using snv k0 by simp
    ultimately show "0 < \<theta>" "\<theta> < pi / 2"
      using arctan_ubound [of "sn / k"] by (simp_all add: zero_less_arctan_iff)
  qed
  have "0 < t * \<theta>" "t * \<theta> < pi"
  proof -
    show "0 < t * \<theta>" using assms(1) th(1) by simp
    have "t * \<theta> < 1 * \<theta>" using assms(2) th(1) by (intro mult_strict_right_mono)
    then show "t * \<theta> < pi" using th(2) pi_gt_zero by linarith
  qed
  then have sB: "0 < sin (t * \<theta>)" by (rule sin_gt_zero)
  have "0 < (1 - t) * \<theta>" "(1 - t) * \<theta> < pi"
  proof -
    show "0 < (1 - t) * \<theta>" using assms(2) th(1) by simp
    have "(1 - t) * \<theta> < 1 * \<theta>" using assms(1) th(1) by (intro mult_strict_right_mono) simp_all
    then show "(1 - t) * \<theta> < pi" using th(2) pi_gt_zero by linarith
  qed
  then have sA: "0 < sin ((1 - t) * \<theta>)" by (rule sin_gt_zero)
  have rA: "0 < rA" and rB: "0 < rB" using sA sB snv by (simp_all add: rA_def rB_def)
  have X: "0 < 0 * rA + sg * (sqrt 2 / 2) * rB" using rB by (simp add: sg1)
  have W: "0 < 1 * rA + sg * (sqrt 2 / 2) * rB"
    using rA rB by (simp add: sg1 add_pos_pos)
  have "slerp (Quaternion 0 0 0 1) (Quaternion (sqrt 2 / 2) 0 0 (sqrt 2 / 2)) (Fin t) =
      Quaternion (0 * rA + sg * (sqrt 2 / 2) * rB) (0 * rA + sg * 0 * rB)
                 (0 * rA + sg * 0 * rB) (1 * rA + sg * (sqrt 2 / 2) * rB)"
    by (rule slerp_spherical [OF t0 t1 k_def k1 eps sg_def sn_def \<theta>_def rA_def rB_def])
  then have "slerp (Quaternion 0 0 0 1) (Quaternion (sqrt 2 / 2) 0 0 (sqrt 2 / 2)) (Fin t) =
      Quaternion (0 * rA + sg * (sqrt 2 / 2) * rB) 0 0 (1 * rA + sg * (sqrt 2 / 2) * rB)"
    by simp
  then show ?thesis using X W by blast
qed

lemma applyQuaternion_about_x:
  "applyQuaternion (Vector3 0 y z) (Quaternion a 0 0 d) =
     Vector3 0 (y * (d * d - a * a) - 2 * a * d * z) (z * (d * d - a * a) + 2 * a * d * y)"
  unfolding applyQuaternion_Fin by (simp add: Vector3_eq_iff algebra_simps)

lemma add_Fin: "add (Vector3 x y z) (Vector3 x' y' z') = Vector3 (x + x') (y + y') (z + z')"
  by (simp add: add_def Vector3_def)

text \<open>
  C2. The claim: \<open>wristPos = elbowPos + elbowQ * (ELBOW_WRIST_OFFSET + wristQ *
  WRIST_CONTROLLER_OFFSET)\<close> with \<open>wristQ\<close> the slerped quaternion. The code, at the state
  \<open>raised_controller_state\<close> and clock reading 1000: \<open>wristQ\<close> is the slerp and \<open>elbowQ\<close> is
  \<open>controllerCameraQ * inverse(wristQ)\<close>, as claimed, but the offset is rotated by the inverse
  of the slerped quaternion, because \<open>wristQ.inverse()\<close> has conjugated \<open>wristQ\<close> in place; the
  stored \<open>wristPos\<close> is not the claimed one.
\<close>

theorem wristPos_rotates_by_inverted_wristQ:
  "update_wristQ_slerped (Fin 1000) raised_controller_state
     = slerp Quaternion_new (update_controllerCameraQ (Fin 1000) raised_controller_state)
         (update_lerpValue (Fin 1000) raised_controller_state)
   \<and> update_elbowQ (Fin 1000) raised_controller_state
     = multiply (update_controllerCameraQ (Fin 1000) raised_controller_state)
         (inverse_quat (update_wristQ_slerped (Fin 1000) raised_controller_state))
   \<and> wristPos (update (Fin 1000) raised_controller_state)
     = add (applyQuaternion
             (add (applyQuaternion WRIST_CONTROLLER_OFFSET
                     (inverse_quat (update_wristQ_slerped (Fin 1000) raised_controller_state)))
                  ELBOW_WRIST_OFFSET)
             (update_elbowQ (Fin 1000) raised_controller_state))
           (update_elbowPos raised_controller_state)
   \<and> wristPos (update (Fin 1000) raised_controller_state)
     \<noteq> add (applyQuaternion
             (add (applyQuaternion WRIST_CONTROLLER_OFFSET
                     (update_wristQ_slerped (Fin 1000) raised_controller_state))
                  ELBOW_WRIST_OFFSET)
             (update_elbowQ (Fin 1000) raised_controller_state))
           (update_elbowPos raised_controller_state)"
proof -
  obtain X W where XW: "0 < X" "0 < W" and
    w: "update_wristQ_slerped (Fin 1000) raised_controller_state = Quaternion X 0 0 W"
    unfolding update_wristQ_slerped_def raised_controllerCameraQ raised_lerpValue
      Quaternion_new_def
    using slerp_identity_X90 [of "3 / 5"] by auto
  define Ex where "Ex = sqrt 2 / 2 * W + sqrt 2 / 2 * - X"
  define Ew where "Ew = sqrt 2 / 2 * W - sqrt 2 / 2 * - X"
  have E: "update_elbowQ (Fin 1000) raised_controller_state = Quaternion Ex 0 0 Ew"
    unfolding update_elbowQ_def update_invWristQ_def w raised_controllerCameraQ
      inverse_quat_Fin multiply_Fin
    by (simp add: Quaternion_eq_iff Ex_def Ew_def)
  have EE: "Ew * Ew - Ex * Ex = 2 * (W * X)"
    by (simp add: Ex_def Ew_def algebra_simps)
  define px :: real where "px = 0.075"
  define py :: real where "py = - 0.325"
  define pz :: real where "pz = - 0.07"
  have p: "update_elbowPos raised_controller_state = Vector3 px py pz"
    unfolding update_elbowPos_def raised_fields raised_extensionRatio HEAD_ELBOW_OFFSET_def
      ARM_EXTENSION_OFFSET_def
    by (simp add: multiplyScalar_def add_def Vector3_def px_def py_def pz_def)
  define z0 where "z0 = 1 / 20 * (W * W - X * X) + - (1 / 4)"
  have code:
    "add (applyQuaternion
             (add (applyQuaternion WRIST_CONTROLLER_OFFSET
                     (inverse_quat (update_wristQ_slerped (Fin 1000) raised_controller_state)))
                  ELBOW_WRIST_OFFSET)
             (update_elbowQ (Fin 1000) raised_controller_state))
           (update_elbowPos raised_controller_state)
     = Vector3 (0 + px)
         ((0 - 2 * - X * W * (1 / 20)) * (Ew * Ew - Ex * Ex) - 2 * Ex * Ew * z0 + py)
         (z0 * (Ew * Ew - Ex * Ex) + 2 * Ex * Ew * (0 - 2 * - X * W * (1 / 20)) + pz)"
    unfolding w E p WRIST_CONTROLLER_OFFSET_def ELBOW_WRIST_OFFSET_def
    by (simp add: inverse_quat_Fin applyQuaternion_about_x add_Fin)
       (simp_all add: Vector3_eq_iff z0_def algebra_simps)
  have claim:
    "add (applyQuaternion
             (add (applyQuaternion WRIST_CONTROLLER_OFFSET
                     (update_wristQ_slerped (Fin 1000) raised_controller_state))
                  ELBOW_WRIST_OFFSET)
             (update_elbowQ (Fin 1000) raised_controller_state))
           (update_elbowPos raised_controller_state)
     = Vector3 (0 + px)
         ((0 - 2 * X * W * (1 / 20)) * (Ew * Ew - Ex * Ex) - 2 * Ex * Ew * z0 + py)
         (z0 * (Ew * Ew - Ex * Ex) + 2 * Ex * Ew * (0 - 2 * X * W * (1 / 20)) + pz)"
    unfolding w E p WRIST_CONTROLLER_OFFSET_def ELBOW_WRIST_OFFSET_def
    by (simp add: applyQuaternion_about_x add_Fin)
       (simp_all add: Vector3_eq_iff z0_def algebra_simps)
  have "0 < X * W" using XW by simp
  then have "0 < (X * W) * (X * W)" by simp
  then have ne: "(0 - 2 * - X * W * (1 / 20)) * (Ew * Ew - Ex * Ex) - 2 * Ex * Ew * z0 + py
      \<noteq> (0 - 2 * X * W * (1 / 20)) * (Ew * Ew - Ex * Ex) - 2 * Ex * Ew * z0 + py"
    using XW unfolding EE by (simp add: algebra_simps)
  have wp: "wristPos (update (Fin 1000) raised_controller_state)
     = add (applyQuaternion
             (add (applyQuaternion WRIST_CONTROLLER_OFFSET
                     (inverse_quat (update_wristQ_slerped (Fin 1000) raised_controller_state)))
                  ELBOW_WRIST_OFFSET)
             (update_elbowQ (Fin 1000) raised_controller_state))
           (update_elbowPos raised_controller_state)"
    by (simp add: update_def update_wristPos_def update_wristQ_def update_invWristQ_def)
  have "wristPos (update (Fin 1000) raised_controller_state)
     \<noteq> add (applyQuaternion
             (add (applyQuaternion WRIST_CONTROLLER_OFFSET
                     (update_wristQ_slerped (Fin 1000) raised_controller_state))
                  ELBOW_WRIST_OFFSET)
             (update_elbowQ (Fin 1000) raised_controller_state))
           (update_elbowPos raised_controller_state)"
    unfolding wp code claim Vector3_eq_iff using ne by blast
  then show ?thesis
    using wp by (simp add: update_wristQ_slerped_def update_elbowQ_def update_invWristQ_def)
qed

end
